theory Spec2Isabelle
  imports Complex_Main "HOL-Library.Product_Lexorder" "HOL-Library.Sublist"
begin

section \<open>Common data: errors, cells, timestamps\<close>

text \<open>
  The Python exceptions that the modelled code can raise. A function that can raise
  returns \<open>py_error + 'a\<close>, with \<open>Inl\<close> for the exception.
\<close>

datatype py_error =
    FileNotFoundError
  | ValueError
  | ZeroDivisionError
  | IndexError
  | KeyError
  | TypeError
  | AttributeError
  | UnboundLocalError

text \<open>
  A timestamp as the code reads it: \<open>hour\<close> and \<open>minute\<close> of the day, and the
  position on the time line in seconds (used only for differences). Python and pandas
  keep \<open>0 \<le> hour < 24\<close> and \<open>0 \<le> minute < 60\<close>.
\<close>

record datetime =
  epoch :: real
  hour :: int
  minute :: int

definition valid_time :: "datetime \<Rightarrow> bool" where
  "valid_time dt = (0 \<le> hour dt \<and> hour dt < 24 \<and> 0 \<le> minute dt \<and> minute dt < 60)"

text \<open>
  One cell of a pandas table: missing (\<open>NaN\<close>, also \<open>NaT\<close> and \<open>None\<close>), a number,
  a text, or a timestamp.
\<close>

datatype cell = NaN | Num real | Str string | Stamp datetime

text \<open>Elementwise \<open>==\<close> of pandas: a missing value is equal to nothing.\<close>

definition py_eq :: "cell \<Rightarrow> cell \<Rightarrow> bool" where
  "py_eq a b = (a \<noteq> NaN \<and> a = b)"

definition is_number :: "cell \<Rightarrow> bool" where
  "is_number c = (case c of Num v \<Rightarrow> True | _ \<Rightarrow> False)"

definition positive_number :: "cell \<Rightarrow> bool" where
  "positive_number c = (case c of Num v \<Rightarrow> v > 0 | _ \<Rightarrow> False)"

section \<open>PriceCalculator (modeling/price\_calculator.py)\<close>

text \<open>
  The two tables of the Citibike dataset that the calculator reads, with the columns it
  reads, typed as the dataset builds them: \<open>started_at\<close> and \<open>ended_at\<close> are
  timestamp columns in which \<open>None\<close> is \<open>NaT\<close>.
\<close>

record station =
  station_id :: cell
  station_name :: cell
  lat :: cell
  lng :: cell
  start_count :: int
  end_count :: int
  x :: real
  y :: real
  x_centered :: real
  y_centered :: real

record ride =
  start_station_id :: cell
  end_station_id :: cell
  started_at :: "datetime option"
  ended_at :: "datetime option"

record citibike_tables =
  stations :: "station list"
  df_rides :: "ride list"

text \<open>
  The calculator object. \<open>model_predict\<close> is \<open>self.model.predict(X)[0]\<close> of the
  unpickled model on the single sample \<open>[x_centered, y_centered, time_center]\<close>.
\<close>

record price_calculator =
  model_predict :: "real \<Rightarrow> real \<Rightarrow> real \<Rightarrow> real"
  citibike_dataset :: citibike_tables
  time_bin_size :: int
  cost_per_accident :: real
  traffic_adjustment :: real

definition convert_time_to_minutes :: "datetime \<Rightarrow> int" where
  "convert_time_to_minutes dt = hour dt * 60 + minute dt"

text \<open>Python's \<open>//\<close> on integers: floor division, raising on a zero divisor.\<close>

definition py_floordiv :: "int \<Rightarrow> int \<Rightarrow> py_error + int" where
  "py_floordiv a b = (if b = 0 then Inl ZeroDivisionError else Inr (a div b))"

definition get_time_bin_center :: "price_calculator \<Rightarrow> int \<Rightarrow> py_error + real" where
  "get_time_bin_center self minutes =
     (case py_floordiv minutes (time_bin_size self) of
        Inl e \<Rightarrow> Inl e
      | Inr time_bin \<Rightarrow>
          Inr (of_int (time_bin * time_bin_size self) + of_int (time_bin_size self) / 2))"

text \<open>\<open>.iloc[0]\<close> of a column: the first element, \<open>IndexError\<close> on an empty one.\<close>

definition iloc0 :: "'a list \<Rightarrow> py_error + 'a" where
  "iloc0 xs = (case xs of [] \<Rightarrow> Inl IndexError | v # _ \<Rightarrow> Inr v)"

text \<open>
  The local function \<open>time_bin\<close> applied to a timestamp column and compared with
  \<open>bin_index\<close>: on \<open>NaT\<close> the attributes are \<open>nan\<close>, the bin is \<open>nan\<close> and the
  comparison is false. The divisor is not zero where this is reached.
\<close>

definition in_time_bin :: "price_calculator \<Rightarrow> int \<Rightarrow> datetime option \<Rightarrow> bool" where
  "in_time_bin self bin_index t =
     (case t of None \<Rightarrow> False
      | Some dt \<Rightarrow> (hour dt * 60 + minute dt) div time_bin_size self = bin_index)"

definition num_starts :: "price_calculator \<Rightarrow> cell \<Rightarrow> int \<Rightarrow> nat" where
  "num_starts self sid bin_index =
     length (filter (\<lambda>t. in_time_bin self bin_index t)
       (map started_at
         (filter (\<lambda>r. py_eq (start_station_id r) sid) (df_rides (citibike_dataset self)))))"

definition num_ends :: "price_calculator \<Rightarrow> cell \<Rightarrow> int \<Rightarrow> nat" where
  "num_ends self sid bin_index =
     length (filter (\<lambda>t. in_time_bin self bin_index t)
       (map ended_at
         (filter (\<lambda>r. py_eq (end_station_id r) sid) (df_rides (citibike_dataset self)))))"

definition predict_insurance_price ::
  "price_calculator \<Rightarrow> datetime \<Rightarrow> cell \<Rightarrow> py_error + (real \<times> real)" where
  "predict_insurance_price self started start_id =
     (let minutes = convert_time_to_minutes started in
      case get_time_bin_center self minutes of
        Inl e \<Rightarrow> Inl e
      | Inr time_center \<Rightarrow>
          (let station_row = filter (\<lambda>s. py_eq (station_id s) start_id)
                               (stations (citibike_dataset self)) in
           case iloc0 (map x_centered station_row) of
             Inl e \<Rightarrow> Inl e
           | Inr xc \<Rightarrow>
               (case iloc0 (map y_centered station_row) of
                  Inl e \<Rightarrow> Inl e
                | Inr yc \<Rightarrow>
                    (let predicted_crash_count = model_predict self xc yc time_center in
                     case py_floordiv minutes (time_bin_size self) of
                       Inl e \<Rightarrow> Inl e
                     | Inr bin_index \<Rightarrow>
                         (let traffic = num_starts self start_id bin_index
                                        + num_ends self start_id bin_index;
                              risk_per_ride =
                                (if traffic > 0 then predicted_crash_count / real traffic
                                 else predicted_crash_count);
                              insurance_price =
                                risk_per_ride * cost_per_accident self * traffic_adjustment self
                          in Inr (insurance_price, risk_per_ride))))))"

text \<open>
  The calculator of the repository's own test (\<open>tests/modeling/test_price_calculator.py\<close>):
  a model that always predicts 2.0, one station \<open>A1\<close>, one ride from \<open>A1\<close> to \<open>A1\<close>
  between 8:05 and 8:10, and a ride to price that starts at 8:07.
\<close>

definition example_tables :: citibike_tables where
  "example_tables =
     \<lparr>stations = [\<lparr>station_id = Str ''A1'', station_name = Str ''Station A'',
                     lat = Num 0, lng = Num 0, start_count = 1, end_count = 1,
                     x = 100, y = 200, x_centered = 100, y_centered = 200\<rparr>],
      df_rides = [\<lparr>start_station_id = Str ''A1'', end_station_id = Str ''A1'',
                    started_at = Some \<lparr>epoch = 0, hour = 8, minute = 5\<rparr>,
                    ended_at = Some \<lparr>epoch = 300, hour = 8, minute = 10\<rparr>\<rparr>]\<rparr>"

definition example_calculator :: "int \<Rightarrow> price_calculator" where
  "example_calculator tbs =
     \<lparr>model_predict = (\<lambda>_ _ _. 2), citibike_dataset = example_tables,
      time_bin_size = tbs, cost_per_accident = 5000, traffic_adjustment = 1 / 1000\<rparr>"

definition ride_start :: datetime where
  "ride_start = \<lparr>epoch = 120, hour = 8, minute = 7\<rparr>"

section \<open>Floating-point values\<close>

text \<open>
  A \<open>float64\<close> is modelled as a real number or one of the three special values, so that
  division by zero gives what numpy gives (an infinity or \<open>nan\<close>, never an exception)
  and a cast of a special value to an integer raises as pandas does. Rounding of finite
  values and the sign of zero are not modelled: the operations below are exact. Where
  \<open>float64\<close> rounds a quotient (\<open>1.0 // 0.1\<close> is \<open>9.0\<close>) or lets a tiny bin size
  underflow to zero, the code gets another bin index, or raises in the cast, where the
  model does not. What is proved below about bin indices is proved at inputs on which
  \<open>float64\<close> is exact, and what is proved for all inputs is about row counts, which do
  not depend on the indices.
\<close>

datatype pyfloat = Fin real | PInf | NInf | NaNf

fun fadd :: "pyfloat \<Rightarrow> pyfloat \<Rightarrow> pyfloat" where
  "fadd (Fin a) (Fin b) = Fin (a + b)"
| "fadd NaNf _ = NaNf"
| "fadd _ NaNf = NaNf"
| "fadd PInf NInf = NaNf"
| "fadd NInf PInf = NaNf"
| "fadd PInf _ = PInf"
| "fadd _ PInf = PInf"
| "fadd NInf _ = NInf"
| "fadd _ NInf = NInf"

fun fneg :: "pyfloat \<Rightarrow> pyfloat" where
  "fneg (Fin a) = Fin (- a)"
| "fneg PInf = NInf"
| "fneg NInf = PInf"
| "fneg NaNf = NaNf"

definition fsub :: "pyfloat \<Rightarrow> pyfloat \<Rightarrow> pyfloat" where
  "fsub a b = fadd a (fneg b)"

fun fmul :: "pyfloat \<Rightarrow> pyfloat \<Rightarrow> pyfloat" where
  "fmul (Fin a) (Fin b) = Fin (a * b)"
| "fmul NaNf _ = NaNf"
| "fmul _ NaNf = NaNf"
| "fmul (Fin a) PInf = (if a > 0 then PInf else if a < 0 then NInf else NaNf)"
| "fmul (Fin a) NInf = (if a > 0 then NInf else if a < 0 then PInf else NaNf)"
| "fmul PInf (Fin b) = (if b > 0 then PInf else if b < 0 then NInf else NaNf)"
| "fmul NInf (Fin b) = (if b > 0 then NInf else if b < 0 then PInf else NaNf)"
| "fmul PInf PInf = PInf"
| "fmul NInf NInf = PInf"
| "fmul PInf NInf = NInf"
| "fmul NInf PInf = NInf"

text \<open>numpy's \<open>/\<close>: a zero divisor gives an infinity, or \<open>nan\<close> for \<open>0 / 0\<close>.\<close>

fun fdiv :: "pyfloat \<Rightarrow> pyfloat \<Rightarrow> pyfloat" where
  "fdiv (Fin a) (Fin b) =
     (if b = 0 then (if a > 0 then PInf else if a < 0 then NInf else NaNf) else Fin (a / b))"
| "fdiv NaNf _ = NaNf"
| "fdiv _ NaNf = NaNf"
| "fdiv (Fin a) _ = Fin 0"
| "fdiv PInf (Fin b) = (if b \<ge> 0 then PInf else NInf)"
| "fdiv NInf (Fin b) = (if b \<ge> 0 then NInf else PInf)"
| "fdiv _ _ = NaNf"

text \<open>
  numpy's \<open>//\<close> on floats: the floor of the quotient; a zero divisor gives what \<open>/\<close>
  gives; a finite value floor-divided by an infinity is 0 or -1.
\<close>

fun ffloordiv :: "pyfloat \<Rightarrow> pyfloat \<Rightarrow> pyfloat" where
  "ffloordiv (Fin a) (Fin b) =
     (if b = 0 then (if a > 0 then PInf else if a < 0 then NInf else NaNf)
      else Fin (of_int \<lfloor>a / b\<rfloor>))"
| "ffloordiv (Fin a) PInf = Fin (if a < 0 then - 1 else 0)"
| "ffloordiv (Fin a) NInf = Fin (if a > 0 then - 1 else 0)"
| "ffloordiv _ _ = NaNf"

text \<open>\<open>Series.min()\<close> and \<open>Series.max()\<close> of a float column: \<open>nan\<close> on an empty one.\<close>

definition series_min :: "real list \<Rightarrow> pyfloat" where
  "series_min xs = (case xs of [] \<Rightarrow> NaNf | v # vs \<Rightarrow> Fin (fold min vs v))"

definition series_max :: "real list \<Rightarrow> pyfloat" where
  "series_max xs = (case xs of [] \<Rightarrow> NaNf | v # vs \<Rightarrow> Fin (fold max vs v))"

text \<open>
  \<open>Series.astype(int)\<close> of a float column: truncation towards zero, and
  \<open>ValueError\<close> (pandas' \<open>IntCastingNaNError\<close>) when a value is not finite.
\<close>

definition trunc :: "real \<Rightarrow> int" where
  "trunc r = (if r \<ge> 0 then \<lfloor>r\<rfloor> else \<lceil>r\<rceil>)"

fun astype_int :: "pyfloat list \<Rightarrow> py_error + int list" where
  "astype_int [] = Inr []"
| "astype_int (Fin r # vs) =
     (case astype_int vs of Inl e \<Rightarrow> Inl e | Inr ks \<Rightarrow> Inr (trunc r # ks))"
| "astype_int (_ # vs) = Inl ValueError"

text \<open>\<open>Series.apply(f)\<close>: the first call that raises ends the whole call.\<close>

fun series_apply :: "('a \<Rightarrow> py_error + 'b) \<Rightarrow> 'a list \<Rightarrow> py_error + 'b list" where
  "series_apply f [] = Inr []"
| "series_apply f (v # vs) =
     (case f v of Inl e \<Rightarrow> Inl e
      | Inr w \<Rightarrow> (case series_apply f vs of Inl e \<Rightarrow> Inl e | Inr ws \<Rightarrow> Inr (w # ws)))"

text \<open>
  An integer column floor-divided by an integer: pandas gives a float column holding an
  infinity or \<open>nan\<close> where the divisor is zero.
\<close>

definition int_series_floordiv :: "int \<Rightarrow> int \<Rightarrow> pyfloat" where
  "int_series_floordiv t b =
     (if b = 0 then (if t > 0 then PInf else if t < 0 then NInf else NaNf)
      else Fin (of_int (t div b)))"

section \<open>Python strings to integers\<close>

text \<open>\<open>str.split(sep)\<close> with a one-character separator.\<close>

fun split_on :: "char \<Rightarrow> string \<Rightarrow> string list" where
  "split_on c [] = [[]]"
| "split_on c (a # as) =
     (if a = c then [] # split_on c as
      else (case split_on c as of [] \<Rightarrow> [[a]] | p # ps \<Rightarrow> (a # p) # ps))"

definition is_space :: "char \<Rightarrow> bool" where
  "is_space c = (of_char c \<in> {9, 10, 11, 12, 13, 28, 29, 30, 31, 32 :: nat})"

definition is_digit :: "char \<Rightarrow> bool" where
  "is_digit c = (48 \<le> (of_char c :: nat) \<and> (of_char c :: nat) \<le> 57)"

definition digit_val :: "char \<Rightarrow> int" where
  "digit_val c = int (of_char c) - 48"

definition strip :: "string \<Rightarrow> string" where
  "strip s = rev (dropWhile is_space (rev (dropWhile is_space s)))"

text \<open>
  The digits of an integer literal: at least one digit, with single underscores allowed
  between digits. The flag says that the previous character was a digit.
\<close>

fun parse_digits :: "bool \<Rightarrow> int \<Rightarrow> string \<Rightarrow> int option" where
  "parse_digits prev acc [] = (if prev then Some acc else None)"
| "parse_digits prev acc (c # cs) =
     (if is_digit c then parse_digits True (acc * 10 + digit_val c) cs
      else if c = CHR ''_'' \<and> prev then
        (case cs of [] \<Rightarrow> None
         | d # _ \<Rightarrow> if is_digit d then parse_digits False acc cs else None)
      else None)"

text \<open>
  Python's \<open>int(s)\<close> on ASCII text: \<open>None\<close> stands for \<open>ValueError\<close>, which Python
  also raises for a text of more than 4300 digits.
\<close>

definition py_int :: "string \<Rightarrow> int option" where
  "py_int s =
     (if length (filter is_digit s) > 4300 then None
      else
        (case strip s of
           [] \<Rightarrow> None
         | c # cs \<Rightarrow>
             if c = CHR ''+'' then parse_digits False 0 cs
             else if c = CHR ''-'' then map_option uminus (parse_digits False 0 cs)
             else parse_digits False 0 (c # cs)))"

section \<open>BikeCrashDataset.spatio\_temporal\_rasterization (datasets/bike\_crash\_dataset.py)\<close>

text \<open>
  A row of the aligned crash table, with the three columns that the rasterization reads:
  \<open>'CRASH TIME'\<close> (a text), \<open>'x_centered'\<close> and \<open>'y_centered'\<close> (floats, finite after
  the cleaning).
\<close>

record crash =
  CRASH_TIME :: string
  crash_x_centered :: real
  crash_y_centered :: real

record raster_row =
  x_center :: pyfloat
  y_center :: pyfloat
  time_center :: real
  crash_count :: nat

text \<open>
  The local function \<open>time_to_minutes\<close>:
  \<^verbatim>\<open>hour, minute = map(int, time_str.split(':'))\<close> raises \<open>ValueError\<close> when the text
  has not exactly two fields or a field is not an integer.
\<close>

definition time_to_minutes :: "string \<Rightarrow> py_error + int" where
  "time_to_minutes time_str =
     (case map py_int (split_on (CHR '':'') time_str) of
        [Some h, Some m] \<Rightarrow> Inr (h * 60 + m)
      | _ \<Rightarrow> Inl ValueError)"

text \<open>The column \<open>((col - lo) // bin_size).astype(int)\<close>.\<close>

definition bin_column :: "real list \<Rightarrow> pyfloat \<Rightarrow> pyfloat \<Rightarrow> py_error + int list" where
  "bin_column col lo bin_size =
     astype_int (map (\<lambda>v. ffloordiv (fsub (Fin v) lo) bin_size) col)"

definition x_bin_size :: "crash list \<Rightarrow> int \<Rightarrow> pyfloat" where
  "x_bin_size df bins =
     fdiv (fsub (series_max (map crash_x_centered df)) (series_min (map crash_x_centered df)))
          (Fin (of_int bins))"

definition y_bin_size :: "crash list \<Rightarrow> int \<Rightarrow> pyfloat" where
  "y_bin_size df bins =
     fdiv (fsub (series_max (map crash_y_centered df)) (series_min (map crash_y_centered df)))
          (Fin (of_int bins))"

definition x_bin :: "crash list \<Rightarrow> int \<Rightarrow> py_error + int list" where
  "x_bin df bins =
     bin_column (map crash_x_centered df) (series_min (map crash_x_centered df))
       (x_bin_size df bins)"

definition y_bin :: "crash list \<Rightarrow> int \<Rightarrow> py_error + int list" where
  "y_bin df bins =
     bin_column (map crash_y_centered df) (series_min (map crash_y_centered df))
       (y_bin_size df bins)"

text \<open>
  The time column is a 64-bit integer column. Its values and \<open>time_bin_size\<close> are taken
  to fit 64 bits (beyond them pandas changes the type of the column, which is not
  modelled); the product \<open>time_bin * time_bin_size\<close> of such values wraps around as numpy's
  does.
\<close>

definition int64_wrap :: "int \<Rightarrow> int" where
  "int64_wrap v = (v + 2 ^ 63) mod 2 ^ 64 - 2 ^ 63"

definition time_bin :: "int list \<Rightarrow> int \<Rightarrow> py_error + int list" where
  "time_bin time_numeric tbs = astype_int (map (\<lambda>t. int_series_floordiv t tbs) time_numeric)"

text \<open>
  \<open>groupby(keys).size().reset_index(name='crash_count')\<close>: one row for each key that
  occurs, in ascending order of the keys, with the number of rows that have the key.
\<close>

definition groupby_size :: "('k :: linorder) list \<Rightarrow> ('k \<times> nat) list" where
  "groupby_size keys = map (\<lambda>k. (k, count_list keys k)) (sort (remdups keys))"

definition raster_of_group ::
  "crash list \<Rightarrow> int \<Rightarrow> int \<Rightarrow> (int \<times> int \<times> int) \<times> nat \<Rightarrow> raster_row" where
  "raster_of_group df bins tbs g =
     (case g of ((xb, yb, tb), n) \<Rightarrow>
        \<lparr>x_center = fadd (series_min (map crash_x_centered df))
                      (fmul (Fin (of_int xb + 1 / 2)) (x_bin_size df bins)),
         y_center = fadd (series_min (map crash_y_centered df))
                      (fmul (Fin (of_int yb + 1 / 2)) (y_bin_size df bins)),
         time_center = of_int (int64_wrap (tb * tbs)) + of_int tbs / 2,
         crash_count = n\<rparr>)"

definition spatio_temporal_rasterization ::
  "crash list \<Rightarrow> int \<Rightarrow> int \<Rightarrow> py_error + raster_row list" where
  "spatio_temporal_rasterization df bins tbs =
     (case series_apply time_to_minutes (map CRASH_TIME df) of
        Inl e \<Rightarrow> Inl e
      | Inr time_numeric \<Rightarrow>
          (case x_bin df bins of
             Inl e \<Rightarrow> Inl e
           | Inr xb \<Rightarrow>
               (case y_bin df bins of
                  Inl e \<Rightarrow> Inl e
                | Inr yb \<Rightarrow>
                    (case time_bin time_numeric tbs of
                       Inl e \<Rightarrow> Inl e
                     | Inr tb \<Rightarrow>
                         Inr (map (raster_of_group df bins tbs)
                                (groupby_size (zip xb (zip yb tb))))))))"

text \<open>
  Three crashes at 10:00, 10:05 and 10:10 on the diagonal of the unit square, as in
  \<open>test_get_spatio_temporal_rasterization\<close> (which uses projected coordinates).
\<close>

definition example_crashes :: "crash list" where
  "example_crashes =
     [\<lparr>CRASH_TIME = ''10:00'', crash_x_centered = 0, crash_y_centered = 0\<rparr>,
      \<lparr>CRASH_TIME = ''10:05'', crash_x_centered = 1 / 2, crash_y_centered = 1 / 2\<rparr>,
      \<lparr>CRASH_TIME = ''10:10'', crash_x_centered = 1, crash_y_centered = 1\<rparr>]"

section \<open>DensityEstimator (modeling/density\_estimator.py)\<close>

text \<open>
  The estimator object: the sample \<open>data\<close> (rows \<open>[x, y]\<close>) and its bounding box, which
  \<open>__init__\<close> computes with \<open>min()\<close> and \<open>max()\<close> of the two columns. numpy raises
  \<open>ValueError\<close> for the minimum of an empty column. The kernel density model that
  \<open>__init__\<close> also fits plays no role in the histograms and is left out.
\<close>

record density_estimator =
  data :: "(real \<times> real) list"
  x_min :: real
  x_max :: real
  y_min :: real
  y_max :: real

definition DensityEstimator :: "(real \<times> real) list \<Rightarrow> py_error + density_estimator" where
  "DensityEstimator d =
     (case d of
        [] \<Rightarrow> Inl ValueError
      | p # ps \<Rightarrow>
          Inr \<lparr>data = d,
               x_min = fold min (map fst ps) (fst p), x_max = fold max (map fst ps) (fst p),
               y_min = fold min (map snd ps) (snd p), y_max = fold max (map snd ps) (snd p)\<rparr>)"

text \<open>
  \<open>np.histogram2d(x, y, bins=bins, range=[[x_lo, x_hi], [y_lo, y_hi]])\<close> for an integer
  \<open>bins\<close>. numpy raises \<open>ValueError\<close> when \<open>bins < 1\<close> or a range is reversed, widens
  a range of width zero by one half on each side, and places \<open>bins + 1\<close> equally spaced
  edges. A value \<open>v\<close> falls into the bin \<open>searchsorted(edges, v, side='right') - 1\<close>,
  the value on the last edge into the last bin, and a value outside the range into no
  bin. The counts are returned as floats.
\<close>

definition np_range :: "real \<Rightarrow> real \<Rightarrow> real \<times> real" where
  "np_range lo hi = (if lo = hi then (lo - 1 / 2, hi + 1 / 2) else (lo, hi))"

definition np_edges :: "real \<Rightarrow> real \<Rightarrow> int \<Rightarrow> real list" where
  "np_edges lo hi bins =
     map (\<lambda>j. lo + real j * (hi - lo) / of_int bins) [0 ..< nat bins + 1]"

definition np_bin :: "real list \<Rightarrow> real \<Rightarrow> nat option" where
  "np_bin edges v =
     (let n = length (filter (\<lambda>e. e \<le> v) edges) in
      if n = 0 then None
      else if v = last edges then Some (n - 2)
      else if n = length edges then None
      else Some (n - 1))"

definition np_histogram2d ::
  "real list \<Rightarrow> real list \<Rightarrow> int \<Rightarrow> (real \<times> real) \<Rightarrow> (real \<times> real)
     \<Rightarrow> py_error + (real list list \<times> real list \<times> real list)" where
  "np_histogram2d xs ys bins xr yr =
     (if bins < 1 \<or> fst xr > snd xr \<or> fst yr > snd yr then Inl ValueError
      else
        (let xedges = np_edges (fst (np_range (fst xr) (snd xr)))
                               (snd (np_range (fst xr) (snd xr))) bins;
             yedges = np_edges (fst (np_range (fst yr) (snd yr)))
                               (snd (np_range (fst yr) (snd yr))) bins;
             cells = map (\<lambda>p. (np_bin xedges (fst p), np_bin yedges (snd p))) (zip xs ys);
             H = map (\<lambda>i. map (\<lambda>j. real (length (filter (\<lambda>c. c = (Some i, Some j)) cells)))
                                [0 ..< nat bins])
                     [0 ..< nat bins]
         in Inr (H, xedges, yedges)))"

definition histogram2d ::
  "density_estimator \<Rightarrow> int \<Rightarrow> py_error + (real list list \<times> real list \<times> real list)" where
  "histogram2d self bins =
     np_histogram2d (map fst (data self)) (map snd (data self)) bins
       (x_min self, x_max self) (y_min self, y_max self)"

text \<open>
  What \<open>plot_heatmap\<close> is called with; the figure itself is an effect outside the
  model. The edges are passed and not used.
\<close>

record heatmap =
  H_shown :: "pyfloat list list"
  extent :: "real list"
  title :: string
  density :: bool

definition plot_heatmap ::
  "pyfloat list list \<Rightarrow> real list \<Rightarrow> real list \<Rightarrow> real list \<Rightarrow> string \<Rightarrow> bool \<Rightarrow> heatmap" where
  "plot_heatmap H xedges yedges ext ttl dens =
     \<lparr>H_shown = H, extent = ext, title = ttl, density = dens\<rparr>"

text \<open>
  The local array \<open>H_norm = np.where(H_den < 1, 0, H_num / H_den)\<close>: the division is
  numpy's, elementwise on every cell (an infinity or \<open>nan\<close> where \<open>H_den\<close> is zero),
  and \<open>where\<close> then selects.
\<close>

definition H_norm_of :: "real list list \<Rightarrow> real list list \<Rightarrow> pyfloat list list" where
  "H_norm_of H_num H_den =
     map (\<lambda>(ns, ds). map (\<lambda>(n, d). if d < 1 then Fin 0 else fdiv (Fin n) (Fin d)) (zip ns ds))
         (zip H_num H_den)"

text \<open>
  \<open>normalized_histogram2d\<close>: both histograms are taken over the bounding box of the
  denominator. The comparison of the edges builds a \<open>RuntimeError\<close> object that is never
  raised, and \<open>safe_denom\<close> is not used. The body ends with the call of
  \<open>plot_heatmap\<close> and has no \<open>return\<close> statement, so the call returns Python's
  \<open>None\<close>: the first component of the result is the returned value, the second the
  heatmaps that were plotted.
\<close>

definition normalized_histogram2d ::
  "density_estimator \<Rightarrow> density_estimator \<Rightarrow> int \<Rightarrow> string
     \<Rightarrow> py_error + (pyfloat list list option \<times> heatmap list)" where
  "normalized_histogram2d numerator denominator bins ttl =
     (case np_histogram2d (map fst (data numerator)) (map snd (data numerator)) bins
             (x_min denominator, x_max denominator) (y_min denominator, y_max denominator) of
        Inl e \<Rightarrow> Inl e
      | Inr (H_num, xedges_num, yedges_num) \<Rightarrow>
          (case np_histogram2d (map fst (data denominator)) (map snd (data denominator)) bins
                  (x_min denominator, x_max denominator)
                  (y_min denominator, y_max denominator) of
             Inl e \<Rightarrow> Inl e
           | Inr (H_den, xedges_den, yedges_den) \<Rightarrow>
               (let H_norm = H_norm_of H_num H_den;
                    ext = [x_min denominator, x_max denominator,
                           y_min denominator, y_max denominator]
                in Inr (None, [plot_heatmap H_norm xedges_den yedges_den ext ttl True]))))"

text \<open>
  Two small estimators: one crash at the origin over two rides at the origin and at
  \<open>(1, 1)\<close>.
\<close>

definition example_numerator :: density_estimator where
  "example_numerator = \<lparr>data = [(0, 0)], x_min = 0, x_max = 0, y_min = 0, y_max = 0\<rparr>"

definition example_denominator :: density_estimator where
  "example_denominator = \<lparr>data = [(0, 0), (1, 1)], x_min = 0, x_max = 1, y_min = 0, y_max = 1\<rparr>"

section \<open>Tables\<close>

text \<open>
  A row of a pandas table is a list of (column name, cell); a table (\<open>DataFrame\<close>) has
  its column names and its rows, each with its index label. \<open>pd.read_csv\<close> gives every
  row exactly the columns of the header (a field that is not there is \<open>NaN\<close>) and the
  index labels \<open>0, 1, 2, ...\<close>.
\<close>

type_synonym row = "(string \<times> cell) list"

definition lookup :: "row \<Rightarrow> string \<Rightarrow> cell" where
  "lookup r c = (case map_of r c of None \<Rightarrow> NaN | Some v \<Rightarrow> v)"

record frame =
  columns :: "string list"
  body :: "(nat \<times> row) list"

record csv_table =
  header :: "string list"
  records :: "row list"

definition select_columns :: "string list \<Rightarrow> row \<Rightarrow> row" where
  "select_columns cols r = map (\<lambda>c. (c, lookup r c)) cols"

text \<open>The cells of one column, \<open>df[c]\<close>.\<close>

definition column :: "frame \<Rightarrow> string \<Rightarrow> cell list" where
  "column df c = map (\<lambda>(i, r). lookup r c) (body df)"

definition read_csv :: "csv_table \<Rightarrow> frame" where
  "read_csv t =
     \<lparr>columns = header t,
      body = enumerate 0 (map (select_columns (header t)) (records t))\<rparr>"

text \<open>\<open>df[m]\<close> with a boolean column \<open>m\<close> aligned with the rows.\<close>

definition filter_mask :: "bool list \<Rightarrow> frame \<Rightarrow> frame" where
  "filter_mask m df = df\<lparr>body := map snd (filter fst (zip m (body df)))\<rparr>"

text \<open>\<open>df[c] = values\<close>: the column is overwritten in place, or added as the last one.\<close>

fun set_cell :: "string \<Rightarrow> cell \<Rightarrow> row \<Rightarrow> row" where
  "set_cell c v [] = [(c, v)]"
| "set_cell c v ((k, w) # r) = (if k = c then (c, v) # r else (k, w) # set_cell c v r)"

definition assign :: "string \<Rightarrow> cell list \<Rightarrow> frame \<Rightarrow> frame" where
  "assign c vals df =
     \<lparr>columns = (if c \<in> set (columns df) then columns df else columns df @ [c]),
      body = map (\<lambda>(v, (i, r)). (i, set_cell c v r)) (zip vals (body df))\<rparr>"

text \<open>\<open>df.dropna(subset=cols)\<close>: \<open>KeyError\<close> when a column of \<open>cols\<close> is not there.\<close>

definition dropna_subset :: "string list \<Rightarrow> frame \<Rightarrow> py_error + frame" where
  "dropna_subset cols df =
     (if \<not> set cols \<subseteq> set (columns df) then Inl KeyError
      else Inr (df\<lparr>body := filter (\<lambda>(i, r). list_all (\<lambda>c. lookup r c \<noteq> NaN) cols) (body df)\<rparr>))"

text \<open>
  The library computations that the code calls and the repository does not define:
  \<^item> Python's text of a float (\<open>str\<close>);
  \<^item> numpy's conversion of a text to a double (\<open>None\<close> when it raises);
  \<^item> \<open>pd.to_datetime(..., errors='coerce')\<close> on one value (\<open>None\<close> is \<open>NaT\<close>);
  \<^item> the pyproj transformation from EPSG:4326 to EPSG:3857 on one point \<open>(lng, lat)\<close>;
  \<^item> the timestamp arithmetic of \<open>CitibikeDataset\<close> on the columns \<open>started_at\<close> and
    \<open>ended_at\<close>: \<open>pd.to_datetime\<close> of both, \<open>(ended_at - started_at).dt.total_seconds()\<close>,
    and \<open>mean()\<close> and \<open>std()\<close> of the result. It gives the durations, their mean and their
    standard deviation, or the exception that pandas raises (a \<open>TypeError\<close> for a column
    with time zones against one without);
  \<^item> the check of \<open>DataFrame.merge\<close> on the types of its keys, which makes the merge
    raise \<open>ValueError\<close> (text keys against a float index): it is given the column that
    fixes the type of the right index, the left keys and the right index.
\<close>

record pylib =
  float_repr :: "real \<Rightarrow> string"
  float_of_text :: "string \<Rightarrow> real option"
  to_datetime :: "cell \<Rightarrow> datetime option"
  transform :: "real \<Rightarrow> real \<Rightarrow> real \<times> real"
  duration_stats :: "cell list \<Rightarrow> cell list \<Rightarrow> py_error + (pyfloat list \<times> pyfloat \<times> pyfloat)"
  merge_refused :: "cell list \<Rightarrow> cell list \<Rightarrow> cell list \<Rightarrow> bool"

text \<open>\<open>astype(str)\<close> on one cell.\<close>

definition str_of_cell :: "pylib \<Rightarrow> cell \<Rightarrow> string" where
  "str_of_cell lib c =
     (case c of NaN \<Rightarrow> ''nan'' | Num v \<Rightarrow> float_repr lib v | Str s \<Rightarrow> s
      | Stamp d \<Rightarrow> float_repr lib (epoch d))"

definition as_double :: "pylib \<Rightarrow> cell \<Rightarrow> real option" where
  "as_double lib c = (case c of Num v \<Rightarrow> Some v | Str s \<Rightarrow> float_of_text lib s | _ \<Rightarrow> None)"

text \<open>\<open>str.lower()\<close> and \<open>str.endswith\<close> on ASCII text.\<close>

definition lower_char :: "char \<Rightarrow> char" where
  "lower_char c =
     (case map_of (zip ''ABCDEFGHIJKLMNOPQRSTUVWXYZ'' ''abcdefghijklmnopqrstuvwxyz'') c of
        None \<Rightarrow> c
      | Some d \<Rightarrow> d)"

definition lower :: "string \<Rightarrow> string" where
  "lower s = map lower_char s"

definition endswith :: "string \<Rightarrow> string \<Rightarrow> bool" where
  "endswith s e = suffix e s"

section \<open>BikeCrashDataset (datasets/bike\_crash\_dataset.py)\<close>

definition REQUIRED_COLUMNS :: "string list" where
  "REQUIRED_COLUMNS =
     [''CRASH DATE'', ''CRASH TIME'', ''LATITUDE'', ''LONGITUDE'', ''CRASH_DATETIME'',
      ''x'', ''y'']"

definition has_required_columns :: "frame \<Rightarrow> bool" where
  "has_required_columns df = (set REQUIRED_COLUMNS \<subseteq> set (columns df))"

text \<open>
  \<open>self.df.get(col, 0) > 0\<close>: without the column the comparison is the single
  \<open>False\<close> of \<open>0 > 0\<close>, which \<open>|\<close> broadcasts; on a missing value it is false; on a
  text Python raises \<open>TypeError\<close>.
\<close>

definition gt0_cell :: "cell \<Rightarrow> py_error + bool" where
  "gt0_cell c =
     (case c of NaN \<Rightarrow> Inr False | Num v \<Rightarrow> Inr (v > 0) | Str s \<Rightarrow> Inl TypeError
      | Stamp d \<Rightarrow> Inl TypeError)"

definition gt0_column :: "frame \<Rightarrow> string \<Rightarrow> py_error + bool list" where
  "gt0_column df col =
     (if col \<in> set (columns df)
      then series_apply gt0_cell (map (\<lambda>(i, r). lookup r col) (body df))
      else Inr (replicate (length (body df)) False))"

definition vehicle_cols :: "string list" where
  "vehicle_cols =
     [''VEHICLE TYPE CODE 1'', ''VEHICLE TYPE CODE 2'', ''VEHICLE TYPE CODE 3'',
      ''VEHICLE TYPE CODE 4'', ''VEHICLE TYPE CODE 5'']"

text \<open>\<open>.astype(str).str.lower().str.contains('bic|bik', na=False)\<close> on one cell.\<close>

definition contains_bike :: "pylib \<Rightarrow> cell \<Rightarrow> bool" where
  "contains_bike lib c =
     (sublist ''bic'' (lower (str_of_cell lib c)) \<or> sublist ''bik'' (lower (str_of_cell lib c)))"

definition vehicle_conditions :: "pylib \<Rightarrow> frame \<Rightarrow> bool list list" where
  "vehicle_conditions lib df =
     map (\<lambda>col. map (\<lambda>(i, r). contains_bike lib (lookup r col)) (body df))
         (filter (\<lambda>col. col \<in> set (columns df)) vehicle_cols)"

text \<open>\<open>pd.concat(conds, axis=1).any(axis=1)\<close>, or all \<open>False\<close> without a column.\<close>

definition vehicle_condition :: "pylib \<Rightarrow> frame \<Rightarrow> bool list" where
  "vehicle_condition lib df =
     (if vehicle_conditions lib df = [] then replicate (length (body df)) False
      else map (\<lambda>k. list_ex (\<lambda>cond. cond ! k) (vehicle_conditions lib df))
               [0 ..< length (body df)])"

definition combined_condition :: "pylib \<Rightarrow> frame \<Rightarrow> py_error + bool list" where
  "combined_condition lib df =
     (case gt0_column df ''NUMBER OF CYCLIST INJURED'' of
        Inl e \<Rightarrow> Inl e
      | Inr injured \<Rightarrow>
          (case gt0_column df ''NUMBER OF CYCLIST KILLED'' of
             Inl e \<Rightarrow> Inl e
           | Inr killed \<Rightarrow>
               Inr (map (\<lambda>(a, b, v). (a \<or> b) \<or> v)
                      (zip injured (zip killed (vehicle_condition lib df))))))"

definition essential_cols :: "string list" where
  "essential_cols = [''CRASH DATE'', ''CRASH TIME'', ''LATITUDE'', ''LONGITUDE'']"

text \<open>Elementwise \<open>!= 0\<close>: only the number 0 is equal to 0.\<close>

definition ne0 :: "cell \<Rightarrow> bool" where
  "ne0 c = (c \<noteq> Num 0)"

text \<open>
  A column that \<open>pd.read_csv\<close> reads as numbers: it has a row, and each of its cells is
  a number or missing. Filtering rows keeps the type of a column.
\<close>

definition numeric_column :: "frame \<Rightarrow> string \<Rightarrow> bool" where
  "numeric_column df c =
     (body df \<noteq> [] \<and> list_all (\<lambda>(i, r). lookup r c = NaN \<or> is_number (lookup r c)) (body df))"

text \<open>
  \<open>self.df['CRASH DATE'] + ' ' + self.df['CRASH TIME']\<close>, then
  \<open>pd.to_datetime(..., errors='coerce')\<close>: adding a text to a numeric column raises
  \<open>TypeError\<close>, also when no row is left in it, and so does adding a text to a number
  row by row; a text that is no date gives \<open>NaT\<close>.
\<close>

definition crash_datetime :: "pylib \<Rightarrow> row \<Rightarrow> py_error + cell" where
  "crash_datetime lib r =
     (case (lookup r ''CRASH DATE'', lookup r ''CRASH TIME'') of
        (Str d, Str t) \<Rightarrow>
          Inr (case to_datetime lib (Str (d @ '' '' @ t)) of None \<Rightarrow> NaN | Some dt \<Rightarrow> Stamp dt)
      | _ \<Rightarrow> Inl TypeError)"

text \<open>
  \<open>transformer.transform(LONGITUDE, LATITUDE)\<close> on one row: pyproj raises \<open>ValueError\<close>
  for a coordinate that does not convert to a double.
\<close>

definition web_mercator :: "pylib \<Rightarrow> cell \<Rightarrow> cell \<Rightarrow> py_error + (real \<times> real)" where
  "web_mercator lib lon la =
     (case (as_double lib lon, as_double lib la) of
        (Some a, Some b) \<Rightarrow> Inr (transform lib a b)
      | _ \<Rightarrow> Inl ValueError)"

definition process_dataset :: "pylib \<Rightarrow> frame \<Rightarrow> py_error + frame" where
  "process_dataset lib df =
     (case combined_condition lib df of
        Inl e \<Rightarrow> Inl e
      | Inr cond \<Rightarrow>
          (case dropna_subset essential_cols (filter_mask cond df) of
             Inl e \<Rightarrow> Inl e
           | Inr df2 \<Rightarrow>
               (let df3 = filter_mask
                            (map (\<lambda>(i, r). ne0 (lookup r ''LATITUDE'') \<and> ne0 (lookup r ''LONGITUDE''))
                                 (body df2)) df2
                in case (if numeric_column df ''CRASH DATE'' \<or> numeric_column df ''CRASH TIME''
                         then Inl TypeError
                         else series_apply (crash_datetime lib) (map snd (body df3))) of
                     Inl e \<Rightarrow> Inl e
                   | Inr stamps \<Rightarrow>
                       (let df4 = assign ''CRASH_DATETIME'' stamps df3
                        in case series_apply
                                  (\<lambda>r. web_mercator lib (lookup r ''LONGITUDE'') (lookup r ''LATITUDE''))
                                  (map snd (body df4)) of
                             Inl e \<Rightarrow> Inl e
                           | Inr coords \<Rightarrow>
                               (let df5 = assign ''x'' (map (\<lambda>p. Num (fst p)) coords) df4;
                                    df6 = assign ''y'' (map (\<lambda>p. Num (snd p)) coords) df5
                                in Inr \<lparr>columns = REQUIRED_COLUMNS,
                                        body = map (\<lambda>(i, r). (i, select_columns REQUIRED_COLUMNS r))
                                                 (body df6)\<rparr>)))))"

text \<open>\<open>BikeCrashDataset(path)\<close> on the table that \<open>pd.read_csv(path)\<close> parses.\<close>

definition BikeCrashDataset :: "pylib \<Rightarrow> csv_table \<Rightarrow> py_error + frame" where
  "BikeCrashDataset lib t =
     (let df = read_csv t in
      if \<not> has_required_columns df then process_dataset lib df else Inr df)"

text \<open>
  The bike-crash condition in the words of the specification: a cyclist was injured or
  killed, or some vehicle type code contains \<open>bic\<close> or \<open>bik\<close> case-insensitively.
\<close>

definition spec_bike_crash :: "pylib \<Rightarrow> row \<Rightarrow> bool" where
  "spec_bike_crash lib r =
     (positive_number (lookup r ''NUMBER OF CYCLIST INJURED'')
      \<or> positive_number (lookup r ''NUMBER OF CYCLIST KILLED'')
      \<or> (\<exists>col \<in> set vehicle_cols.
            sublist ''bic'' (lower (str_of_cell lib (lookup r col)))
          \<or> sublist ''bik'' (lower (str_of_cell lib (lookup r col)))))"

text \<open>
  Library stand-ins for the examples: every text is a date at 10:00 of one day (so that
  every duration is 0), the projection is the identity, numbers print as \<open>0.0\<close>, and
  no merge is refused.
\<close>

definition example_lib :: pylib where
  "example_lib =
     \<lparr>float_repr = (\<lambda>_. ''0.0''), float_of_text = (\<lambda>_. None),
      to_datetime = (\<lambda>c. case c of Str s \<Rightarrow> Some \<lparr>epoch = 0, hour = 10, minute = 0\<rparr> | _ \<Rightarrow> None),
      transform = (\<lambda>a b. (a, b)),
      duration_stats =
        (\<lambda>s e. Inr (map (\<lambda>_. Fin 0) s,
                     if s = [] then NaNf else Fin 0,
                     if length s < 2 then NaNf else Fin 0)),
      merge_refused = (\<lambda>_ _ _. False)\<rparr>"

text \<open>
  The crash table of \<open>test_process_dataset\<close>: a crash with an injured cyclist and a
  vehicle \<open>bike\<close>, and a crash of a car without a cyclist.
\<close>

definition example_crash_csv :: csv_table where
  "example_crash_csv =
     \<lparr>header = [''CRASH DATE'', ''CRASH TIME'', ''LATITUDE'', ''LONGITUDE'',
                 ''NUMBER OF CYCLIST INJURED'', ''VEHICLE TYPE CODE 1''],
      records =
        [[(''CRASH DATE'', Str ''2023-01-01''), (''CRASH TIME'', Str ''08:00''),
          (''LATITUDE'', Num 40), (''LONGITUDE'', Num (- 74)),
          (''NUMBER OF CYCLIST INJURED'', Num 1), (''VEHICLE TYPE CODE 1'', Str ''bike'')],
         [(''CRASH DATE'', Str ''2023-01-02''), (''CRASH TIME'', Str ''14:00''),
          (''LATITUDE'', Num 41), (''LONGITUDE'', Num (- 75)),
          (''NUMBER OF CYCLIST INJURED'', Num 0), (''VEHICLE TYPE CODE 1'', Str ''car'')]]\<rparr>"

text \<open>What the processing keeps of the example: the crash of the cyclist.\<close>

definition example_bike_crashes :: frame where
  "example_bike_crashes =
     \<lparr>columns = REQUIRED_COLUMNS,
      body = [(0, [(''CRASH DATE'', Str ''2023-01-01''), (''CRASH TIME'', Str ''08:00''),
                   (''LATITUDE'', Num 40), (''LONGITUDE'', Num (- 74)),
                   (''CRASH_DATETIME'', Stamp \<lparr>epoch = 0, hour = 10, minute = 0\<rparr>),
                   (''x'', Num (- 74)), (''y'', Num 40)])]\<rparr>"

section \<open>CitibikeDataset (datasets/citibike\_dataset.py)\<close>

text \<open>
  What the constructor sees of the file system. A regular file carries what
  \<open>pd.read_csv\<close> does on it (an exception or the parsed table). A directory carries
  the files that \<open>os.walk\<close> lists under it, each with its name, what \<open>pd.read_csv\<close>
  does on it, and what \<open>ZipFile(...).extractall\<close> does on it: an exception, or the
  files that it writes, with what \<open>pd.read_csv\<close> does on each. A path that exists and
  is neither a file nor a directory is \<open>Special\<close>.
\<close>

type_synonym csv_file = "string \<times> (py_error + csv_table)"

record dir_file =
  file_name :: string
  read_result :: "py_error + csv_table"
  extract_result :: "py_error + csv_file list"

datatype fs_node =
    Absent
  | Regular "py_error + csv_table"
  | Directory "dir_file list"
  | Special

text \<open>
  The first walk: every file whose lowercased name ends in \<open>.zip\<close> is extracted and
  removed; when the extraction raises, the error is printed and the file stays. The
  result is what the second walk lists.
\<close>

definition extract_zips :: "dir_file list \<Rightarrow> csv_file list" where
  "extract_zips files =
     concat (map (\<lambda>f.
        if endswith (lower (file_name f)) ''.zip''
        then (case extract_result f of
                Inl e \<Rightarrow> [(file_name f, read_result f)]
              | Inr extracted \<Rightarrow> extracted)
        else [(file_name f, read_result f)]) files)"

text \<open>
  The second walk: every file whose lowercased name ends in \<open>.csv\<close> is read; a file
  that cannot be read is printed and skipped.
\<close>

definition df_list :: "dir_file list \<Rightarrow> frame list" where
  "df_list files =
     concat (map (\<lambda>(n, c).
        if endswith (lower n) ''.csv''
        then (case c of Inl e \<Rightarrow> [] | Inr t \<Rightarrow> [read_csv t])
        else []) (extract_zips files))"

text \<open>
  \<open>pd.concat(dfs, ignore_index=True)\<close>: the columns in the order of their first
  appearance, every row filled with \<open>NaN\<close> in the columns that its file has not, and
  the index labels \<open>0, 1, 2, ...\<close>. On tables this does not raise, so the
  \<open>ValueError\<close> of the \<open>except\<close> around it has no branch here.
\<close>

definition pd_concat :: "frame list \<Rightarrow> frame" where
  "pd_concat dfs =
     (let cols = remdups (concat (map columns dfs)) in
      \<lparr>columns = cols,
       body = enumerate 0 (map (\<lambda>(i, r). select_columns cols r) (concat (map body dfs)))\<rparr>)"

definition load_frame :: "(string \<Rightarrow> fs_node) \<Rightarrow> string \<Rightarrow> py_error + frame" where
  "load_frame fs path =
     (case fs path of
        Absent \<Rightarrow> Inl FileNotFoundError
      | Regular c \<Rightarrow>
          (if endswith (lower path) ''.csv''
           then (case c of Inl e \<Rightarrow> Inl ValueError | Inr t \<Rightarrow> Inr (read_csv t))
           else Inl ValueError)
      | Directory files \<Rightarrow>
          (if df_list files = [] then Inl ValueError else Inr (pd_concat (df_list files)))
      | Special \<Rightarrow> Inl UnboundLocalError)"

definition required_columns :: "string list" where
  "required_columns =
     [''ride_id'', ''rideable_type'', ''started_at'', ''ended_at'',
      ''start_station_name'', ''start_station_id'', ''end_station_name'', ''end_station_id'',
      ''start_lat'', ''start_lng'', ''end_lat'', ''end_lng'', ''member_casual'']"

definition missing_columns :: "frame \<Rightarrow> string list" where
  "missing_columns df = filter (\<lambda>col. col \<notin> set (columns df)) required_columns"

text \<open>\<open>df.dropna()\<close>: the rows with no missing value in any column.\<close>

definition dropna :: "frame \<Rightarrow> frame" where
  "dropna df =
     df\<lparr>body := filter (\<lambda>(i, r). list_all (\<lambda>c. lookup r c \<noteq> NaN) (columns df)) (body df)\<rparr>"

text \<open>\<open>df.reset_index(drop=True)\<close>: the rows are labelled \<open>0, 1, 2, ...\<close> anew.\<close>

definition reset_index :: "frame \<Rightarrow> frame" where
  "reset_index df = df\<lparr>body := enumerate 0 (map snd (body df))\<rparr>"

text \<open>
  \<open>dropped_mask = ~original_df.index.isin(cleaned_df.index)\<close> and
  \<open>original_df.loc[dropped_mask]\<close>.
\<close>

definition dropped_mask :: "frame \<Rightarrow> frame \<Rightarrow> bool list" where
  "dropped_mask original_df cleaned_df =
     map (\<lambda>(i, r). i \<notin> set (map fst (body cleaned_df))) (body original_df)"

text \<open>
  Keeping the first of the rows with the same key (\<open>drop_duplicates(subset=key)\<close>).
\<close>

fun drop_duplicates :: "('a \<Rightarrow> 'k) \<Rightarrow> 'a list \<Rightarrow> 'a list" where
  "drop_duplicates key [] = []"
| "drop_duplicates key (v # vs) = v # drop_duplicates key (filter (\<lambda>w. key w \<noteq> key v) vs)"

text \<open>
  \<open>Series.value_counts()\<close>: every value that occurs, missing values apart, with its
  number of occurrences. (The order by frequency is not modelled: the counts are only
  looked up.)
\<close>

definition value_counts :: "cell list \<Rightarrow> (cell \<times> nat) list" where
  "value_counts vs =
     map (\<lambda>k. (k, count_list vs k)) (remdups (filter (\<lambda>v. v \<noteq> NaN) vs))"

text \<open>
  \<open>left.merge(counts, left_on=key, right_index=True, how='left')\<close>: one row for each
  pair of a left row and an entry of \<open>counts\<close> with its key, and one row with a missing
  count for a left row without such an entry.
\<close>

definition merge_left :: "('a \<Rightarrow> cell) \<Rightarrow> 'a list \<Rightarrow> (cell \<times> nat) list \<Rightarrow> ('a \<times> nat option) list" where
  "merge_left key left counts =
     concat (map (\<lambda>s.
        case filter (\<lambda>(k, n). k = key s) counts of
          [] \<Rightarrow> [(s, None)]
        | ms \<Rightarrow> map (\<lambda>(k, n). (s, Some n)) ms) left)"

text \<open>\<open>.fillna(0).astype(int)\<close> on one count.\<close>

definition fillna0 :: "nat option \<Rightarrow> int" where
  "fillna0 c = (case c of None \<Rightarrow> 0 | Some n \<Rightarrow> int n)"

text \<open>\<open>Series.mean()\<close> of a float column: \<open>nan\<close> on an empty one.\<close>

definition series_mean :: "real list \<Rightarrow> pyfloat" where
  "series_mean vs = (if vs = [] then NaNf else Fin (sum_list vs / real (length vs)))"

text \<open>
  \<open>_process_stations\<close>. A station row before the counts are merged is
  \<open>(station_id, station_name, lat, lng)\<close>. The centered coordinates are taken against
  the mean of a table that has a row, so they are finite.
\<close>

type_synonym station_row = "cell \<times> cell \<times> cell \<times> cell"

definition station_rows :: "string list \<Rightarrow> frame \<Rightarrow> station_row list" where
  "station_rows cols df =
     map (\<lambda>(i, r). (lookup r (cols ! 0), lookup r (cols ! 1), lookup r (cols ! 2), lookup r (cols ! 3)))
         (filter (\<lambda>(i, r). list_all (\<lambda>c. lookup r c \<noteq> NaN) cols) (body df))"

record stations_result =
  stations_table :: "station list"
  res_x_center :: pyfloat
  res_y_center :: pyfloat

text \<open>The start and the end stations, concatenated, one row for each \<open>station_id\<close>.\<close>

definition unique_stations :: "frame \<Rightarrow> station_row list" where
  "unique_stations df =
     (let start_stations =
            drop_duplicates fst
              (station_rows [''start_station_id'', ''start_station_name'', ''start_lat'', ''start_lng''] df);
          end_stations =
            drop_duplicates fst
              (station_rows [''end_station_id'', ''end_station_name'', ''end_lat'', ''end_lng''] df)
      in drop_duplicates fst (start_stations @ end_stations))"

text \<open>The two merges with the usage counts.\<close>

definition merged_stations :: "frame \<Rightarrow> ((station_row \<times> nat option) \<times> nat option) list" where
  "merged_stations df =
     (let start_counts = value_counts (column df ''start_station_id'');
          end_counts = value_counts (column df ''end_station_id'')
      in merge_left (\<lambda>(s, c). fst s) (merge_left fst (unique_stations df) start_counts) end_counts)"

text \<open>\<open>transformer.transform(stations['lng'], stations['lat'])\<close> on one row.\<close>

definition station_xy ::
  "pylib \<Rightarrow> (station_row \<times> nat option) \<times> nat option \<Rightarrow> py_error + (real \<times> real)" where
  "station_xy lib m =
     (case m of (((sid, nm, la, lo), c1), c2) \<Rightarrow> web_mercator lib lo la)"

definition make_station ::
  "real \<Rightarrow> real \<Rightarrow> ((station_row \<times> nat option) \<times> nat option) \<times> (real \<times> real) \<Rightarrow> station" where
  "make_station xc yc m =
     (case m of ((((sid, nm, la, lo), c1), c2), p) \<Rightarrow>
        \<lparr>station_id = sid, station_name = nm, lat = la, lng = lo,
         start_count = fillna0 c1, end_count = fillna0 c2,
         x = fst p, y = snd p, x_centered = fst p - xc, y_centered = snd p - yc\<rparr>)"

text \<open>
  \<open>start_ids\<close> is the column \<open>start_station_id\<close> of the loaded table, which fixes the
  type of the index of \<open>start_counts\<close>; the index of \<open>end_counts\<close> has the type of the
  converted column \<open>end_station_id\<close>. A refused merge raises before the coordinates
  are transformed.
\<close>

definition process_stations :: "pylib \<Rightarrow> cell list \<Rightarrow> frame \<Rightarrow> py_error + stations_result" where
  "process_stations lib start_ids df =
     (if merge_refused lib start_ids (map fst (unique_stations df))
           (map fst (value_counts (column df ''start_station_id'')))
         \<or> merge_refused lib (column df ''end_station_id'') (map fst (unique_stations df))
           (map fst (value_counts (column df ''end_station_id'')))
      then Inl ValueError
      else
        (case series_apply (station_xy lib) (merged_stations df) of
           Inl e \<Rightarrow> Inl e
         | Inr coords \<Rightarrow>
             Inr \<lparr>stations_table =
                     map (make_station (sum_list (map fst coords) / real (length coords))
                                       (sum_list (map snd coords) / real (length coords)))
                         (zip (merged_stations df) coords),
                   res_x_center = series_mean (map fst coords),
                   res_y_center = series_mean (map snd coords)\<rparr>))"

text \<open>
  The dataset object: the two tables that the price calculator reads, \<open>dropped_rows\<close>,
  the ride durations with their statistics, and the station center. (In the code the
  durations are two more columns of \<open>df_rides\<close>.)
\<close>

record citibike = citibike_tables +
  dropped_rows :: frame
  ride_duration :: "pyfloat list"
  ride_duration_normalized :: "pyfloat list"
  duration_mean :: pyfloat
  duration_std :: pyfloat
  ds_x_center :: pyfloat
  ds_y_center :: pyfloat

definition ride_of_row :: "pylib \<Rightarrow> row \<Rightarrow> ride" where
  "ride_of_row lib r =
     \<lparr>start_station_id = lookup r ''start_station_id'',
      end_station_id = lookup r ''end_station_id'',
      started_at = to_datetime lib (lookup r ''started_at''),
      ended_at = to_datetime lib (lookup r ''ended_at'')\<rparr>"

text \<open>
  The cleaned table: \<open>df.dropna().reset_index(drop=True)\<close> with \<open>end_station_id\<close>
  converted to text.
\<close>

definition cleaned_rides :: "pylib \<Rightarrow> frame \<Rightarrow> frame" where
  "cleaned_rides lib df =
     (let cleaned_df = reset_index (dropna df) in
      assign ''end_station_id''
        (map (\<lambda>c. Str (str_of_cell lib c)) (column cleaned_df ''end_station_id''))
        cleaned_df)"

definition CitibikeDataset :: "pylib \<Rightarrow> (string \<Rightarrow> fs_node) \<Rightarrow> string \<Rightarrow> py_error + citibike" where
  "CitibikeDataset lib fs path =
     (case load_frame fs path of
        Inl e \<Rightarrow> Inl e
      | Inr df \<Rightarrow>
          (if missing_columns df \<noteq> [] then Inl ValueError
           else
             (let original_df = df;
                  dropped = filter_mask (dropped_mask original_df (reset_index (dropna df)))
                              original_df;
                  cleaned_df = cleaned_rides lib df
              in case duration_stats lib (column cleaned_df ''started_at'')
                        (column cleaned_df ''ended_at'') of
                   Inl e \<Rightarrow> Inl e
                 | Inr (durations, mean, std) \<Rightarrow>
                     (case process_stations lib (column original_df ''start_station_id'')
                             cleaned_df of
                        Inl e \<Rightarrow> Inl e
                      | Inr res \<Rightarrow>
                          Inr \<lparr>stations = stations_table res,
                               df_rides = map (\<lambda>(i, r). ride_of_row lib r) (body cleaned_df),
                               dropped_rows = dropped,
                               ride_duration = durations,
                               ride_duration_normalized =
                                 map (\<lambda>v. fdiv (fsub v mean) std) durations,
                               duration_mean = mean,
                               duration_std = std,
                               ds_x_center = res_x_center res,
                               ds_y_center = res_y_center res\<rparr>))))"

text \<open>
  Three rides in the manner of \<open>test_citibike_dataset.py\<close>, the ride with the missing
  \<open>end_station_id\<close> first, in a file \<open>RIDES.CSV\<close>, which is also there as
  \<open>rides.csv\<close>, beside the crash table \<open>crashes.csv\<close>, a text file \<open>notes.txt\<close> and
  an empty directory \<open>empty\<close>.
\<close>

definition example_ride_missing :: row where
  "example_ride_missing =
     [(''ride_id'', Num 3), (''rideable_type'', Str ''classic_bike''),
      (''started_at'', Str ''2023-01-01 10:00:00''), (''ended_at'', Str ''2023-01-01 10:20:00''),
      (''start_station_name'', Str ''Station C''), (''start_station_id'', Str ''C1''),
      (''end_station_name'', Str ''Station C''), (''end_station_id'', NaN),
      (''start_lat'', Num 41), (''start_lng'', Num (- 73)),
      (''end_lat'', Num 41), (''end_lng'', Num (- 73)), (''member_casual'', Str ''member'')]"

definition example_ride_complete :: row where
  "example_ride_complete =
     [(''ride_id'', Num 1), (''rideable_type'', Str ''electric_bike''),
      (''started_at'', Str ''2023-01-01 08:00:00''), (''ended_at'', Str ''2023-01-01 08:15:00''),
      (''start_station_name'', Str ''Station A''), (''start_station_id'', Str ''A1''),
      (''end_station_name'', Str ''Station A''), (''end_station_id'', Str ''A1''),
      (''start_lat'', Num 40), (''start_lng'', Num (- 74)),
      (''end_lat'', Num 40), (''end_lng'', Num (- 74)), (''member_casual'', Str ''member'')]"

definition example_ride_other :: row where
  "example_ride_other =
     [(''ride_id'', Num 2), (''rideable_type'', Str ''classic_bike''),
      (''started_at'', Str ''2023-01-01 09:00:00''), (''ended_at'', Str ''2023-01-01 09:20:00''),
      (''start_station_name'', Str ''Station B''), (''start_station_id'', Str ''B1''),
      (''end_station_name'', Str ''Station A''), (''end_station_id'', Str ''A1''),
      (''start_lat'', Num 42), (''start_lng'', Num (- 72)),
      (''end_lat'', Num 40), (''end_lng'', Num (- 74)), (''member_casual'', Str ''casual'')]"

definition example_rides_csv :: csv_table where
  "example_rides_csv =
     \<lparr>header = required_columns,
      records = [example_ride_missing, example_ride_complete, example_ride_other]\<rparr>"

definition example_fs :: "string \<Rightarrow> fs_node" where
  "example_fs path =
     (if path = ''RIDES.CSV'' \<or> path = ''rides.csv'' then Regular (Inr example_rides_csv)
      else if path = ''crashes.csv'' then Regular (Inr example_crash_csv)
      else if path = ''notes.txt'' then Regular (Inl ValueError)
      else if path = ''empty'' then Directory []
      else Absent)"

text \<open>What the constructor builds from \<open>rides.csv\<close> and from \<open>RIDES.CSV\<close>.\<close>

definition example_dataset :: citibike where
  "example_dataset =
     \<lparr>stations =
        [\<lparr>station_id = Str ''A1'', station_name = Str ''Station A'',
          lat = Num 40, lng = Num (- 74), start_count = 1, end_count = 2,
          x = - 74, y = 40, x_centered = - 1, y_centered = - 1\<rparr>,
         \<lparr>station_id = Str ''B1'', station_name = Str ''Station B'',
          lat = Num 42, lng = Num (- 72), start_count = 1, end_count = 0,
          x = - 72, y = 42, x_centered = 1, y_centered = 1\<rparr>],
      df_rides =
        [\<lparr>start_station_id = Str ''A1'', end_station_id = Str ''A1'',
          started_at = Some \<lparr>epoch = 0, hour = 10, minute = 0\<rparr>,
          ended_at = Some \<lparr>epoch = 0, hour = 10, minute = 0\<rparr>\<rparr>,
         \<lparr>start_station_id = Str ''B1'', end_station_id = Str ''A1'',
          started_at = Some \<lparr>epoch = 0, hour = 10, minute = 0\<rparr>,
          ended_at = Some \<lparr>epoch = 0, hour = 10, minute = 0\<rparr>\<rparr>],
      dropped_rows = \<lparr>columns = required_columns, body = [(2, example_ride_other)]\<rparr>,
      ride_duration = [Fin 0, Fin 0],
      ride_duration_normalized = [NaNf, NaNf],
      duration_mean = Fin 0,
      duration_std = Fin 0,
      ds_x_center = Fin (- 73), ds_y_center = Fin 41\<rparr>"




section \<open>Time binning\<close>

lemma convert_time_to_minutes_range:
  assumes "valid_time dt"
  shows "0 \<le> convert_time_to_minutes dt \<and> convert_time_to_minutes dt \<le> 1439"
  using assms by (simp add: valid_time_def convert_time_to_minutes_def)

lemma floor_bin_bounds:
  fixes m b :: int
  assumes "0 < b"
  shows "(m div b) * b \<le> m \<and> m < (m div b) * b + b"
proof -
  have "m = (m div b) * b + m mod b" by simp
  moreover have "0 \<le> m mod b" "m mod b < b" using assms by simp_all
  ultimately show ?thesis by linarith
qed

text \<open>
  Claim C8. For a timestamp \<open>dt\<close> and a positive \<open>time_bin_size\<close>, the minutes since
  midnight \<open>m = hour * 60 + minute\<close> lie in \<open>0..1439\<close>, \<open>get_time_bin_center\<close> returns a
  center \<open>c\<close>, and \<open>c - time_bin_size / 2 \<le> m < c + time_bin_size / 2\<close>.
\<close>

theorem time_bin_center_contains_time:
  assumes "valid_time dt" and "0 < time_bin_size self"
  shows "\<exists>c. get_time_bin_center self (convert_time_to_minutes dt) = Inr c
           \<and> convert_time_to_minutes dt = hour dt * 60 + minute dt
           \<and> 0 \<le> convert_time_to_minutes dt \<and> convert_time_to_minutes dt \<le> 1439
           \<and> c - of_int (time_bin_size self) / 2 \<le> of_int (convert_time_to_minutes dt)
           \<and> of_int (convert_time_to_minutes dt) < c + of_int (time_bin_size self) / 2"
proof -
  let ?m = "convert_time_to_minutes dt"
  let ?b = "time_bin_size self"
  let ?c = "of_int ((?m div ?b) * ?b) + of_int ?b / (2::real)"
  have ret: "get_time_bin_center self ?m = Inr ?c"
    using assms(2) by (simp add: get_time_bin_center_def py_floordiv_def)
  have bnd: "(?m div ?b) * ?b \<le> ?m \<and> ?m < (?m div ?b) * ?b + ?b"
    using floor_bin_bounds [OF assms(2)] .
  have lo: "?c - of_int ?b / 2 \<le> of_int ?m"
  proof -
    have "(of_int ((?m div ?b) * ?b) :: real) \<le> of_int ?m"
      using bnd by (simp only: of_int_le_iff)
    then show ?thesis by simp
  qed
  have hi: "of_int ?m < ?c + of_int ?b / 2"
  proof -
    have "(of_int ?m :: real) < of_int ((?m div ?b) * ?b + ?b)"
      using bnd by (simp only: of_int_less_iff)
    then show ?thesis by simp
  qed
  show ?thesis
    using ret lo hi convert_time_to_minutes_range [OF assms(1)]
    by (simp add: convert_time_to_minutes_def)
qed

theorem time_bin_center_contains_time_witness:
  "valid_time ride_start \<and> 0 < time_bin_size (example_calculator 30)
   \<and> (\<exists>c. get_time_bin_center (example_calculator 30) (convert_time_to_minutes ride_start)
              = Inr c
          \<and> convert_time_to_minutes ride_start = hour ride_start * 60 + minute ride_start
          \<and> 0 \<le> convert_time_to_minutes ride_start
          \<and> convert_time_to_minutes ride_start \<le> 1439
          \<and> c - of_int (time_bin_size (example_calculator 30)) / 2
                \<le> of_int (convert_time_to_minutes ride_start)
          \<and> of_int (convert_time_to_minutes ride_start)
                < c + of_int (time_bin_size (example_calculator 30)) / 2)"
proof -
  have v: "valid_time ride_start"
    by (simp add: valid_time_def ride_start_def)
  have p: "0 < time_bin_size (example_calculator 30)"
    by (simp add: example_calculator_def)
  show ?thesis
    using v p time_bin_center_contains_time [OF v p] by simp
qed

section \<open>Insurance price\<close>

lemma num_starts_count:
  "num_starts self sid b =
     length (filter (\<lambda>r. py_eq (start_station_id r) sid
               \<and> (\<exists>dt. started_at r = Some dt
                     \<and> (hour dt * 60 + minute dt) div time_bin_size self = b))
             (df_rides (citibike_dataset self)))"
  unfolding num_starts_def in_time_bin_def
  by (simp add: filter_map o_def)
     (rule arg_cong [where f = length], rule filter_cong, auto split: option.splits)

lemma num_ends_count:
  "num_ends self sid b =
     length (filter (\<lambda>r. py_eq (end_station_id r) sid
               \<and> (\<exists>dt. ended_at r = Some dt
                     \<and> (hour dt * 60 + minute dt) div time_bin_size self = b))
             (df_rides (citibike_dataset self)))"
  unfolding num_ends_def in_time_bin_def
  by (simp add: filter_map o_def)
     (rule arg_cong [where f = length], rule filter_cong, auto split: option.splits)

text \<open>
  Claim C4, as stated, at a calculator whose \<open>time_bin_size\<close> is 0: the station \<open>A1\<close>
  is present exactly once, and \<open>predict_insurance_price\<close> returns no pair: the floor
  division in \<open>get_time_bin_center\<close> raises \<open>ZeroDivisionError\<close>.
\<close>

theorem predict_insurance_price_zero_bin_counterexample:
  "map station_id (stations (citibike_dataset (example_calculator 0))) = [Str ''A1'']
   \<and> predict_insurance_price (example_calculator 0) ride_start (Str ''A1'')
       = Inl ZeroDivisionError"
  by (simp add: predict_insurance_price_def example_calculator_def example_tables_def
      ride_start_def get_time_bin_center_def py_floordiv_def convert_time_to_minutes_def
      py_eq_def)

text \<open>
  Claim C4, amended. For a calculator whose \<open>time_bin_size\<close> is not 0, every ride start
  time and every station id whose rows in the stations table are exactly the one row
  \<open>s\<close>: \<open>predict_insurance_price\<close> returns a pair \<open>(insurance_price, risk_per_ride)\<close>
  with \<open>insurance_price = risk_per_ride * cost_per_accident * traffic_adjustment\<close>, where
  \<open>risk_per_ride\<close> is the model's prediction at the station's centered coordinates and the
  center of the ride's time bin, divided by the traffic when the traffic is positive,
  and the prediction itself when the traffic is zero. The traffic is the number of rides
  that start at the station with a start time in the ride's time bin, plus the number of
  rides that end at the station with an end time in that bin.
\<close>

theorem predict_insurance_price_formula:
  assumes tbs: "time_bin_size self \<noteq> 0"
    and once: "filter (\<lambda>s. py_eq (station_id s) sid) (stations (citibike_dataset self)) = [s]"
  shows "\<exists>insurance_price risk_per_ride.
           predict_insurance_price self started sid = Inr (insurance_price, risk_per_ride)
         \<and> insurance_price = risk_per_ride * cost_per_accident self * traffic_adjustment self
         \<and> risk_per_ride =
             (let bin = (\<lambda>dt. (hour dt * 60 + minute dt) div time_bin_size self);
                  predicted = model_predict self (x_centered s) (y_centered s)
                     (of_int (bin started * time_bin_size self) + of_int (time_bin_size self) / 2);
                  traffic =
                     length (filter (\<lambda>r. py_eq (start_station_id r) sid
                               \<and> (\<exists>dt. started_at r = Some dt \<and> bin dt = bin started))
                             (df_rides (citibike_dataset self)))
                   + length (filter (\<lambda>r. py_eq (end_station_id r) sid
                               \<and> (\<exists>dt. ended_at r = Some dt \<and> bin dt = bin started))
                             (df_rides (citibike_dataset self)))
              in if traffic > 0 then predicted / real traffic else predicted)"
  using tbs
  by (simp add: predict_insurance_price_def get_time_bin_center_def py_floordiv_def
      convert_time_to_minutes_def iloc0_def once Let_def num_starts_count num_ends_count)

theorem predict_insurance_price_formula_witness:
  "time_bin_size (example_calculator 30) \<noteq> 0
   \<and> filter (\<lambda>s. py_eq (station_id s) (Str ''A1''))
        (stations (citibike_dataset (example_calculator 30)))
       = [hd (stations example_tables)]
   \<and> predict_insurance_price (example_calculator 30) ride_start (Str ''A1'') = Inr (5, 1)"
proof -
  have t: "time_bin_size (example_calculator 30) \<noteq> 0"
    by (simp add: example_calculator_def)
  have o: "filter (\<lambda>s. py_eq (station_id s) (Str ''A1''))
             (stations (citibike_dataset (example_calculator 30)))
           = [hd (stations example_tables)]"
    by (simp add: example_calculator_def example_tables_def py_eq_def)
  show ?thesis
    using t o predict_insurance_price_formula [OF t o, of ride_start]
    by (simp add: example_calculator_def example_tables_def ride_start_def py_eq_def Let_def)
qed

section \<open>Rasterization\<close>


lemma series_apply_length: "series_apply f vs = Inr ws \<Longrightarrow> length ws = length vs"
  by (induction vs arbitrary: ws) (auto split: sum.splits)



lemma groupby_size_positive: "g \<in> set (groupby_size keys) \<Longrightarrow> 1 \<le> snd g"
proof -
  assume "g \<in> set (groupby_size keys)"
  then obtain k where k: "k \<in> set keys" and g: "g = (k, count_list keys k)"
    by (auto simp: groupby_size_def)
  from k have "count_list keys k \<noteq> 0" by (simp add: count_list_0_iff)
  with g show ?thesis by simp
qed

lemma crash_count_raster_of_group: "crash_count (raster_of_group df bins tbs g) = snd g"
  by (simp add: raster_of_group_def split: prod.splits)

lemma example_raster:
  "spatio_temporal_rasterization example_crashes 2 15 =
     Inr [\<lparr>x_center = Fin (1 / 4), y_center = Fin (1 / 4), time_center = 1215 / 2, crash_count = 1\<rparr>,
          \<lparr>x_center = Fin (3 / 4), y_center = Fin (3 / 4), time_center = 1215 / 2, crash_count = 1\<rparr>,
          \<lparr>x_center = Fin (5 / 4), y_center = Fin (5 / 4), time_center = 1215 / 2, crash_count = 1\<rparr>]"
  by (simp add: example_crashes_def spatio_temporal_rasterization_def time_to_minutes_def
      py_int_def strip_def is_space_def is_digit_def digit_val_def
      x_bin_def y_bin_def x_bin_size_def y_bin_size_def bin_column_def series_min_def
      series_max_def fsub_def trunc_def time_bin_def int_series_floordiv_def
      groupby_size_def raster_of_group_def int64_wrap_def)




text \<open>
  Claim C9. Every row of a raster returned by \<open>spatio_temporal_rasterization\<close> has
  \<open>crash_count \<ge> 1\<close>: the rows are the groups of keys that occur in the crash table,
  so a bin without a crash has no row.
\<close>

theorem raster_rows_count_at_least_one:
  assumes "spatio_temporal_rasterization df bins tbs = Inr raster"
  shows "\<forall>r \<in> set raster. 1 \<le> crash_count r"
proof
  fix r assume "r \<in> set raster"
  moreover from assms obtain keys :: "(int \<times> int \<times> int) list" where
    "raster = map (raster_of_group df bins tbs) (groupby_size keys)"
    by (auto simp: spatio_temporal_rasterization_def split: sum.splits)
  ultimately obtain g where "g \<in> set (groupby_size keys)" "r = raster_of_group df bins tbs g"
    by auto
  then show "1 \<le> crash_count r"
    using groupby_size_positive by (simp add: crash_count_raster_of_group)
qed

theorem raster_rows_count_at_least_one_witness:
  "\<exists>raster. spatio_temporal_rasterization example_crashes 2 15 = Inr raster
     \<and> length raster = 3 \<and> list_all (\<lambda>r. 1 \<le> crash_count r) raster"
  using raster_rows_count_at_least_one [OF example_raster] example_raster
  by (simp add: list_all_iff)

text \<open>
  Claim C2 at the three example crashes with \<open>bins = 2\<close>. The claim says that every
  \<open>x_bin\<close> and \<open>y_bin\<close> lies in \<open>0..bins - 1\<close>; the code gives the crash at the
  maximum coordinate the index \<open>bins\<close> itself, so that three distinct indices occur on
  an axis documented to have two bins.
\<close>

theorem x_bin_reaches_bins:
  "x_bin example_crashes 2 = Inr [0, 1, 2] \<and> y_bin example_crashes 2 = Inr [0, 1, 2]"
  by (simp add: x_bin_def y_bin_def x_bin_size_def y_bin_size_def bin_column_def
      example_crashes_def series_min_def series_max_def fsub_def trunc_def)

section \<open>Normalized histogram\<close>

text \<open>
  The array that is plotted holds 0 in every cell whose denominator count is less than 1
  and the finite ratio of the two counts in every other cell, and the value returned is
  \<open>None\<close> whatever the arguments are.
\<close>

lemma H_norm_of_cell:
  assumes "i < length H_num" "i < length H_den" "j < length (H_num ! i)" "j < length (H_den ! i)"
  shows "H_norm_of H_num H_den ! i ! j =
           (if H_den ! i ! j < 1 then Fin 0 else Fin (H_num ! i ! j / H_den ! i ! j))"
  using assms by (auto simp: H_norm_of_def)

lemma normalized_histogram2d_result:
  assumes "normalized_histogram2d numerator denominator bins ttl = Inr (r, plots)"
  shows "r = None \<and> length plots = 1"
  using assms
  by (auto simp: normalized_histogram2d_def Let_def split: sum.splits prod.splits)

text \<open>
  Claim C3 at one crash over two rides with \<open>bins = 2\<close>. The claim (and the docstring)
  say that the normalized array is returned; the code plots the array
  \<open>[[1, 0], [0, 0]]\<close> and returns \<open>None\<close>.
\<close>

theorem normalized_histogram2d_returns_None:
  "normalized_histogram2d example_numerator example_denominator 2 ''Histogram Heatmap'' =
     Inr (None,
          [\<lparr>H_shown = [[Fin 1, Fin 0], [Fin 0, Fin 0]], extent = [0, 1, 0, 1],
             title = ''Histogram Heatmap'', density = True\<rparr>])"
  by (simp add: normalized_histogram2d_def np_histogram2d_def np_range_def np_edges_def
      np_bin_def example_numerator_def example_denominator_def H_norm_of_def
      plot_heatmap_def Let_def upt_rec)

section \<open>Bike crash extraction\<close>

lemma series_apply_all2:
  "series_apply f xs = Inr ys \<Longrightarrow> list_all2 (\<lambda>v w. f v = Inr w) xs ys"
  by (induction xs arbitrary: ys) (auto split: sum.splits)

lemma filter_mask_body:
  assumes "p \<in> set (body (filter_mask m df))"
  shows "\<exists>k. k < length m \<and> k < length (body df) \<and> m ! k \<and> body df ! k = p"
proof -
  from assms obtain b where "(b, p) \<in> set (zip m (body df))" and "b"
    by (auto simp: filter_mask_def)
  then show ?thesis by (auto simp: set_zip)
qed

lemma filter_mask_columns: "columns (filter_mask m df) = columns df"
  by (simp add: filter_mask_def)

lemma filter_mask_subset: "set (body (filter_mask m df)) \<subseteq> set (body df)"
  using filter_mask_body by (metis nth_mem subsetI)

lemma gt0_column_true:
  assumes "gt0_column df col = Inr m" and "k < length (body df)" and "k < length m" and "m ! k"
  shows "positive_number (lookup (snd (body df ! k)) col)"
proof (cases "col \<in> set (columns df)")
  case True
  with assms(1) have "list_all2 (\<lambda>v w. gt0_cell v = Inr w) (map (\<lambda>(i, r). lookup r col) (body df)) m"
    by (simp add: gt0_column_def series_apply_all2)
  with assms(2) have "gt0_cell (lookup (snd (body df ! k)) col) = Inr (m ! k)"
    by (cases "body df ! k") (auto simp: list_all2_conv_all_nth split: prod.splits)
  with assms(4) show ?thesis
    by (auto simp: gt0_cell_def positive_number_def split: cell.splits)
next
  case False
  with assms show ?thesis by (auto simp: gt0_column_def)
qed

lemma gt0_column_length: "gt0_column df col = Inr m \<Longrightarrow> length m = length (body df)"
  by (auto simp: gt0_column_def dest: series_apply_length split: if_splits)

lemma vehicle_condition_true:
  assumes "k < length (body df)" and "k < length (vehicle_condition lib df)"
    and "vehicle_condition lib df ! k"
  shows "\<exists>col \<in> set vehicle_cols. contains_bike lib (lookup (snd (body df ! k)) col)"
proof (cases "vehicle_conditions lib df = []")
  case True
  with assms show ?thesis by (simp add: vehicle_condition_def)
next
  case False
  with assms have "list_ex (\<lambda>cond. cond ! k) (vehicle_conditions lib df)"
    by (simp add: vehicle_condition_def)
  then obtain col where "col \<in> set vehicle_cols"
    and "map (\<lambda>(i, r). contains_bike lib (lookup r col)) (body df) ! k"
    by (auto simp: vehicle_conditions_def list_ex_iff)
  with assms(1) show ?thesis by (auto split: prod.splits)
qed

lemma combined_condition_true:
  assumes "combined_condition lib df = Inr cond" and "k < length cond" and "k < length (body df)"
    and "cond ! k"
  shows "spec_bike_crash lib (snd (body df ! k))"
proof -
  from assms(1) obtain injured killed where
    i: "gt0_column df ''NUMBER OF CYCLIST INJURED'' = Inr injured" and
    d: "gt0_column df ''NUMBER OF CYCLIST KILLED'' = Inr killed" and
    c: "cond = map (\<lambda>(a, b, v). (a \<or> b) \<or> v) (zip injured (zip killed (vehicle_condition lib df)))"
    by (auto simp: combined_condition_def split: sum.splits)
  from assms(2) c have len: "k < length injured" "k < length killed"
    "k < length (vehicle_condition lib df)" by simp_all
  with assms(4) c have "injured ! k \<or> killed ! k \<or> vehicle_condition lib df ! k" by auto
  then consider "injured ! k" | "killed ! k" | "vehicle_condition lib df ! k" by blast
  then show ?thesis
  proof cases
    case 1
    from gt0_column_true [OF i assms(3) len(1) 1] show ?thesis by (simp add: spec_bike_crash_def)
  next
    case 2
    from gt0_column_true [OF d assms(3) len(2) 2] show ?thesis by (simp add: spec_bike_crash_def)
  next
    case 3
    from vehicle_condition_true [OF assms(3) len(3) 3] show ?thesis
      by (auto simp: spec_bike_crash_def contains_bike_def)
  qed
qed

lemma lookup_set_cell: "lookup (set_cell c v r) c' = (if c' = c then v else lookup r c')"
  by (induction c v r rule: set_cell.induct) (auto simp: lookup_def)

lemma lookup_select_columns:
  "c \<in> set cols \<Longrightarrow> lookup (select_columns cols r) c = lookup r c"
  by (induction cols) (auto simp: lookup_def select_columns_def)

lemma assign_body:
  assumes "(i, r') \<in> set (body (assign c vals df))"
  shows "\<exists>v r. (i, r) \<in> set (body df) \<and> r' = set_cell c v r"
proof -
  from assms obtain v p where "(v, p) \<in> set (zip vals (body df))"
    and "(i, r') = (case p of (j, r) \<Rightarrow> (j, set_cell c v r))"
    by (auto simp: assign_def)
  then show ?thesis by (cases p) (auto dest: set_zip_rightD)
qed



lemma dropna_subset_body:
  assumes "dropna_subset cols df = Inr df2" and "(i, r) \<in> set (body df2)" and "c \<in> set cols"
  shows "(i, r) \<in> set (body df) \<and> lookup r c \<noteq> NaN"
  using assms by (auto simp: dropna_subset_def list_all_iff split: if_splits)

lemma process_dataset_columns: "process_dataset lib df = Inr out \<Longrightarrow> columns out = REQUIRED_COLUMNS"
  by (auto simp: process_dataset_def Let_def split: sum.splits)

lemma process_dataset_row:
  assumes "process_dataset lib df = Inr out" and "(i, r) \<in> set (body out)"
  shows "\<exists>r0. (i, r0) \<in> set (body df) \<and> spec_bike_crash lib r0
           \<and> (\<forall>c \<in> set essential_cols. lookup r0 c \<noteq> NaN \<and> lookup r c = lookup r0 c)
           \<and> ne0 (lookup r0 ''LATITUDE'') \<and> ne0 (lookup r0 ''LONGITUDE'')
           \<and> map fst r = REQUIRED_COLUMNS"
proof -
  let ?m3 = "\<lambda>d. map (\<lambda>(i, r). ne0 (lookup r ''LATITUDE'') \<and> ne0 (lookup r ''LONGITUDE'')) (body d)"
  from assms(1) obtain cond df2 stamps coords where
    cond: "combined_condition lib df = Inr cond" and
    df2: "dropna_subset essential_cols (filter_mask cond df) = Inr df2" and
    out: "out = \<lparr>columns = REQUIRED_COLUMNS,
                 body = map (\<lambda>(i, r). (i, select_columns REQUIRED_COLUMNS r))
                   (body (assign ''y'' (map (\<lambda>p. Num (snd p)) coords)
                     (assign ''x'' (map (\<lambda>p. Num (fst p)) coords)
                       (assign ''CRASH_DATETIME'' stamps (filter_mask (?m3 df2) df2)))))\<rparr>"
    by (auto simp: process_dataset_def Let_def split: sum.splits)
  from assms(2) out obtain r6 where
    r6: "(i, r6) \<in> set (body (assign ''y'' (map (\<lambda>p. Num (snd p)) coords)
                     (assign ''x'' (map (\<lambda>p. Num (fst p)) coords)
                       (assign ''CRASH_DATETIME'' stamps (filter_mask (?m3 df2) df2)))))"
    and r: "r = select_columns REQUIRED_COLUMNS r6"
    by auto
  from assign_body [OF r6] obtain vy r5 where
    r5: "(i, r5) \<in> set (body (assign ''x'' (map (\<lambda>p. Num (fst p)) coords)
                       (assign ''CRASH_DATETIME'' stamps (filter_mask (?m3 df2) df2))))"
    and r65: "r6 = set_cell ''y'' vy r5" by blast
  from assign_body [OF r5] obtain vx r4 where
    r4: "(i, r4) \<in> set (body (assign ''CRASH_DATETIME'' stamps (filter_mask (?m3 df2) df2)))"
    and r54: "r5 = set_cell ''x'' vx r4" by blast
  from assign_body [OF r4] obtain vd r0 where
    r3: "(i, r0) \<in> set (body (filter_mask (?m3 df2) df2))"
    and r40: "r4 = set_cell ''CRASH_DATETIME'' vd r0" by blast
  from filter_mask_body [OF r3] obtain k where
    k: "k < length (body df2)" "?m3 df2 ! k" "body df2 ! k = (i, r0)" by auto
  then have nz: "ne0 (lookup r0 ''LATITUDE'') \<and> ne0 (lookup r0 ''LONGITUDE'')" by simp
  from k have in2: "(i, r0) \<in> set (body df2)" by (metis nth_mem)
  have in1: "(i, r0) \<in> set (body (filter_mask cond df))"
    and nn: "\<forall>c \<in> set essential_cols. lookup r0 c \<noteq> NaN"
    using dropna_subset_body [OF df2 in2] by (auto simp: essential_cols_def)
  from filter_mask_body [OF in1] obtain j where
    j: "j < length cond" "j < length (body df)" "cond ! j" "body df ! j = (i, r0)" by auto
  have spec: "spec_bike_crash lib r0"
    using combined_condition_true [OF cond j(1) j(2) j(3)] j(4) by simp
  have in0: "(i, r0) \<in> set (body df)" using j by (metis nth_mem)
  have same: "\<forall>c \<in> set essential_cols. lookup r c = lookup r0 c"
    by (simp add: r r65 r54 r40 essential_cols_def REQUIRED_COLUMNS_def
        lookup_select_columns lookup_set_cell)
  have cols: "map fst r = REQUIRED_COLUMNS"
    by (simp add: r select_columns_def o_def)
  show ?thesis using in0 spec nn same nz cols by blast
qed

lemma example_bike_crashes_run:
  "BikeCrashDataset example_lib example_crash_csv = Inr example_bike_crashes"
  by code_simp

text \<open>
  Claim C6. For a raw crash table that does not already have the seven required columns,
  when the construction of \<open>BikeCrashDataset\<close> completes, the table has exactly the
  columns \<open>CRASH DATE\<close>, \<open>CRASH TIME\<close>, \<open>LATITUDE\<close>, \<open>LONGITUDE\<close>,
  \<open>CRASH_DATETIME\<close>, \<open>x\<close>, \<open>y\<close>, and every row of it has these columns, has the
  four essential values non-null, has \<open>LATITUDE \<noteq> 0\<close> and \<open>LONGITUDE \<noteq> 0\<close>, and comes
  from a row of the raw table (same index label, same essential values) that satisfies
  the bike-crash condition of the specification.
\<close>

theorem bike_crash_rows_cleaned:
  assumes "\<not> has_required_columns (read_csv t)" and "BikeCrashDataset lib t = Inr df"
  shows "columns df = [''CRASH DATE'', ''CRASH TIME'', ''LATITUDE'', ''LONGITUDE'',
                       ''CRASH_DATETIME'', ''x'', ''y'']
       \<and> (\<forall>(i, r) \<in> set (body df).
             map fst r = columns df
           \<and> lookup r ''CRASH DATE'' \<noteq> NaN \<and> lookup r ''CRASH TIME'' \<noteq> NaN
           \<and> lookup r ''LATITUDE'' \<noteq> NaN \<and> lookup r ''LONGITUDE'' \<noteq> NaN
           \<and> lookup r ''LATITUDE'' \<noteq> Num 0 \<and> lookup r ''LONGITUDE'' \<noteq> Num 0
           \<and> (\<exists>r0. (i, r0) \<in> set (body (read_csv t)) \<and> spec_bike_crash lib r0
                 \<and> lookup r ''CRASH DATE'' = lookup r0 ''CRASH DATE''
                 \<and> lookup r ''CRASH TIME'' = lookup r0 ''CRASH TIME''
                 \<and> lookup r ''LATITUDE'' = lookup r0 ''LATITUDE''
                 \<and> lookup r ''LONGITUDE'' = lookup r0 ''LONGITUDE''))"
proof -
  from assms have run: "process_dataset lib (read_csv t) = Inr df"
    by (simp add: BikeCrashDataset_def Let_def)
  have cols: "columns df = REQUIRED_COLUMNS" by (rule process_dataset_columns [OF run])
  have "map fst r = columns df
      \<and> lookup r ''CRASH DATE'' \<noteq> NaN \<and> lookup r ''CRASH TIME'' \<noteq> NaN
      \<and> lookup r ''LATITUDE'' \<noteq> NaN \<and> lookup r ''LONGITUDE'' \<noteq> NaN
      \<and> lookup r ''LATITUDE'' \<noteq> Num 0 \<and> lookup r ''LONGITUDE'' \<noteq> Num 0
      \<and> (\<exists>r0. (i, r0) \<in> set (body (read_csv t)) \<and> spec_bike_crash lib r0
            \<and> lookup r ''CRASH DATE'' = lookup r0 ''CRASH DATE''
            \<and> lookup r ''CRASH TIME'' = lookup r0 ''CRASH TIME''
            \<and> lookup r ''LATITUDE'' = lookup r0 ''LATITUDE''
            \<and> lookup r ''LONGITUDE'' = lookup r0 ''LONGITUDE'')"
    if "(i, r) \<in> set (body df)" for i r
  proof -
    from process_dataset_row [OF run that] obtain r0 where
      r0: "(i, r0) \<in> set (body (read_csv t))" "spec_bike_crash lib r0"
        "\<forall>c \<in> set essential_cols. lookup r0 c \<noteq> NaN \<and> lookup r c = lookup r0 c"
        "ne0 (lookup r0 ''LATITUDE'')" "ne0 (lookup r0 ''LONGITUDE'')"
        "map fst r = REQUIRED_COLUMNS"
      by blast
    from r0(3) have e:
      "lookup r0 ''CRASH DATE'' \<noteq> NaN" "lookup r ''CRASH DATE'' = lookup r0 ''CRASH DATE''"
      "lookup r0 ''CRASH TIME'' \<noteq> NaN" "lookup r ''CRASH TIME'' = lookup r0 ''CRASH TIME''"
      "lookup r0 ''LATITUDE'' \<noteq> NaN" "lookup r ''LATITUDE'' = lookup r0 ''LATITUDE''"
      "lookup r0 ''LONGITUDE'' \<noteq> NaN" "lookup r ''LONGITUDE'' = lookup r0 ''LONGITUDE''"
      by (simp_all add: essential_cols_def)
    show ?thesis
      using r0(1,2,4,5,6) e cols by (auto simp: ne0_def)
  qed
  then show ?thesis using cols by (auto simp: REQUIRED_COLUMNS_def)
qed

theorem bike_crash_rows_cleaned_witness:
  "\<not> has_required_columns (read_csv example_crash_csv)
   \<and> BikeCrashDataset example_lib example_crash_csv = Inr example_bike_crashes
   \<and> length (body example_bike_crashes) = 1
   \<and> columns example_bike_crashes =
         [''CRASH DATE'', ''CRASH TIME'', ''LATITUDE'', ''LONGITUDE'', ''CRASH_DATETIME'',
          ''x'', ''y'']
   \<and> list_all (\<lambda>(i, r).
          lookup r ''LATITUDE'' \<noteq> NaN \<and> lookup r ''LATITUDE'' \<noteq> Num 0
        \<and> (\<exists>r0. (i, r0) \<in> set (body (read_csv example_crash_csv))
              \<and> spec_bike_crash example_lib r0))
       (body example_bike_crashes)"
proof -
  have a: "\<not> has_required_columns (read_csv example_crash_csv)"
    by (simp add: has_required_columns_def read_csv_def example_crash_csv_def
        REQUIRED_COLUMNS_def)
  have l: "length (body example_bike_crashes) = 1"
    by (simp add: example_bike_crashes_def)
  from bike_crash_rows_cleaned [OF a example_bike_crashes_run]
  show ?thesis
    using a example_bike_crashes_run l by (auto simp: list_all_iff)
qed

section \<open>Citibike stations\<close>

lemma drop_duplicates_subset: "set (drop_duplicates key vs) \<subseteq> set vs"
  by (induction key vs rule: drop_duplicates.induct) auto

lemma drop_duplicates_distinct: "distinct (map key (drop_duplicates key vs))"
proof (induction key vs rule: drop_duplicates.induct)
  case (1 key)
  show ?case by simp
next
  case (2 key v vs)
  have "key v \<notin> key ` set (drop_duplicates key (filter (\<lambda>w. key w \<noteq> key v) vs))"
    using drop_duplicates_subset [of key "filter (\<lambda>w. key w \<noteq> key v) vs"] by auto
  with 2 show ?case by simp
qed

lemma value_counts_distinct: "distinct (map fst (value_counts vs))"
  by (simp add: value_counts_def o_def)

lemma filter_key_distinct:
  "distinct (map fst counts) \<Longrightarrow> length (filter (\<lambda>(k, n). k = a) counts) \<le> 1"
proof (induction counts)
  case Nil
  show ?case by simp
next
  case (Cons c counts)
  show ?case
  proof (cases "fst c = a")
    case True
    with Cons.prems have "filter (\<lambda>(k, n). k = a) counts = []"
      by (force simp: filter_empty_conv image_iff)
    with True show ?thesis by (cases c) simp
  next
    case False
    with Cons show ?thesis by (cases c) simp
  qed
qed

lemma merge_left_keys:
  assumes "distinct (map fst counts)"
  shows "map fst (merge_left key left counts) = left"
proof (induction left)
  case Nil
  show ?case by (simp add: merge_left_def)
next
  case (Cons s left)
  have "length (filter (\<lambda>(k, n). k = key s) counts) \<le> 1"
    by (rule filter_key_distinct [OF assms])
  then have "map fst (case filter (\<lambda>(k, n). k = key s) counts of
                [] \<Rightarrow> [(s, None)] | ms \<Rightarrow> map (\<lambda>(k, n). (s, Some n)) ms) = [s]"
    by (cases "filter (\<lambda>(k, n). k = key s) counts")
       (auto split: prod.splits)
  with Cons show ?case by (simp add: merge_left_def)
qed

lemma station_id_make_station: "station_id (make_station xc yc (m, p)) = fst (fst (fst m))"
  by (simp add: make_station_def split: prod.splits)

lemma merged_stations_ids: "map fst (map fst (map fst (merged_stations df))) = map fst (unique_stations df)"
  unfolding merged_stations_def Let_def
  by (simp only: merge_left_keys [OF value_counts_distinct])

lemma unique_stations_distinct: "distinct (map fst (unique_stations df))"
  unfolding unique_stations_def Let_def by (rule drop_duplicates_distinct)

lemma process_stations_ids:
  assumes "process_stations lib ids df = Inr res"
  shows "distinct (map station_id (stations_table res))"
proof -
  from assms obtain coords xc yc where
    c: "series_apply (station_xy lib) (merged_stations df) = Inr coords" and
    t: "stations_table res = map (make_station xc yc) (zip (merged_stations df) coords)"
    by (fastforce simp: process_stations_def split: sum.splits if_splits)
  have len: "length coords = length (merged_stations df)"
    using series_apply_length [OF c] by simp
  have "map station_id (stations_table res)
          = map (\<lambda>m. fst (fst (fst m))) (map fst (zip (merged_stations df) coords))"
    by (simp add: t o_def split_def station_id_make_station [unfolded split_def]
        make_station_def)
  also have "\<dots> = map (\<lambda>m. fst (fst (fst m))) (merged_stations df)"
    using len by simp
  also have "\<dots> = map fst (map fst (map fst (merged_stations df)))"
    by (simp add: o_def)
  also have "\<dots> = map fst (unique_stations df)"
    by (rule merged_stations_ids)
  finally show ?thesis
    by (simp only: unique_stations_distinct)
qed

lemma unique_station_row:
  assumes "distinct (map station_id sts)" and "s \<in> set sts" and "py_eq (station_id s) sid"
  shows "filter (\<lambda>s. py_eq (station_id s) sid) sts = [s]"
  using assms
proof (induction sts)
  case Nil
  then show ?case by simp
next
  case (Cons a sts)
  show ?case
  proof (cases "s = a")
    case True
    have "filter (\<lambda>s. py_eq (station_id s) sid) sts = []"
      using Cons.prems True by (force simp: filter_empty_conv py_eq_def image_iff)
    with True Cons.prems show ?thesis by simp
  next
    case False
    with Cons.prems have "s \<in> set sts" by simp
    moreover have "\<not> py_eq (station_id a) sid"
      using Cons.prems False \<open>s \<in> set sts\<close> by (auto simp: py_eq_def)
    ultimately show ?thesis using Cons by simp
  qed
qed

text \<open>
  Claim C10. After the construction of \<open>CitibikeDataset\<close> the \<open>station_id\<close> values of
  the stations table are pairwise distinct, so that the lookup of
  \<open>predict_insurance_price\<close> (the rows whose \<open>station_id\<close> equals the given id) selects
  exactly one row for every station id of the table.
\<close>

theorem station_ids_distinct:
  assumes "CitibikeDataset lib fs path = Inr ds"
  shows "distinct (map station_id (stations ds))
       \<and> (\<forall>sid. \<forall>s \<in> set (stations ds). py_eq (station_id s) sid \<longrightarrow>
             filter (\<lambda>s. py_eq (station_id s) sid) (stations ds) = [s])"
proof -
  from assms obtain ids df res where
    "process_stations lib ids df = Inr res" and "stations ds = stations_table res"
    by (auto simp: CitibikeDataset_def Let_def split: sum.splits if_splits prod.splits)
  then have "distinct (map station_id (stations ds))"
    using process_stations_ids by simp
  then show ?thesis using unique_station_row by blast
qed

lemma example_dataset_run:
  "CitibikeDataset example_lib example_fs ''rides.csv'' = Inr example_dataset"
  by code_simp

theorem station_ids_distinct_witness:
  "CitibikeDataset example_lib example_fs ''rides.csv'' = Inr example_dataset
   \<and> map station_id (stations example_dataset) = [Str ''A1'', Str ''B1'']
   \<and> distinct (map station_id (stations example_dataset))
   \<and> filter (\<lambda>s. py_eq (station_id s) (Str ''B1'')) (stations example_dataset)
       = [stations example_dataset ! 1]"
proof -
  have m: "map station_id (stations example_dataset) = [Str ''A1'', Str ''B1'']"
    by code_simp
  have i: "stations example_dataset ! 1 \<in> set (stations example_dataset)"
    by (simp add: example_dataset_def)
  have e: "py_eq (station_id (stations example_dataset ! 1)) (Str ''B1'')"
    by code_simp
  from station_ids_distinct [OF example_dataset_run] i e
  show ?thesis using example_dataset_run m by blast
qed

section \<open>Dropped rows\<close>

lemma filter_ge_upt: "k \<le> n \<Longrightarrow> length (filter (\<lambda>i. i \<notin> set [0..<k]) [0..<n]) = n - k"
  by (induction n) (auto simp: Suc_diff_le)

lemma length_filter_labels:
  assumes "map fst xs = [0..<length xs]" and "k \<le> length xs"
  shows "length (filter (\<lambda>(i, r). i \<notin> set [0..<k]) xs) = length xs - k"
proof -
  have "length (filter (\<lambda>(i, r). i \<notin> set [0..<k]) xs)
          = length (filter (\<lambda>i. i \<notin> set [0..<k]) (map fst xs))"
    by (simp add: filter_map o_def split_def)
  then show ?thesis using assms filter_ge_upt by simp
qed

lemma load_frame_index:
  assumes "load_frame fs path = Inr df"
  shows "map fst (body df) = [0..<length (body df)]"
  using assms
  by (auto simp: load_frame_def read_csv_def pd_concat_def Let_def enumerate_eq_zip
      split: fs_node.splits if_splits sum.splits)

lemma filter_mask_map:
  "filter_mask (map P (body df)) df = df\<lparr>body := filter P (body df)\<rparr>"
proof -
  have "map snd (filter fst (zip (map P xs) xs)) = filter P xs" for xs :: "(nat \<times> row) list"
    by (induction xs) auto
  then show ?thesis by (simp add: filter_mask_def)
qed

lemma dropped_rows_count:
  assumes "load_frame fs path = Inr df" and "CitibikeDataset lib fs path = Inr ds"
  shows "length (df_rides ds) + length (body (dropped_rows ds)) = length (body df)"
proof -
  let ?kept = "filter (\<lambda>(i, r). list_all (\<lambda>c. lookup r c \<noteq> NaN) (columns df)) (body df)"
  let ?k = "length ?kept"
  have labels: "map fst (body (reset_index (dropna df))) = [0..<?k]"
    by (simp add: reset_index_def dropna_def enumerate_eq_zip)
  from assms have rides: "length (df_rides ds) = ?k"
    by (auto simp: CitibikeDataset_def cleaned_rides_def column_def Let_def assign_def
        reset_index_def dropna_def split: sum.splits if_splits prod.splits)
  from assms have "dropped_rows ds
      = filter_mask (dropped_mask df (reset_index (dropna df))) df"
    by (auto simp: CitibikeDataset_def Let_def split: sum.splits if_splits prod.splits)
  then have "body (dropped_rows ds) = filter (\<lambda>(i, r). i \<notin> set [0..<?k]) (body df)"
    by (simp add: dropped_mask_def filter_mask_map labels)
  then have "length (body (dropped_rows ds)) = length (body df) - ?k"
    using length_filter_labels [OF load_frame_index [OF assms(1)], of ?k] by simp
  with rides show ?thesis by simp
qed

text \<open>
  Claim C5 at the three example rides, the first of which has no \<open>end_station_id\<close>.
  The claim says that \<open>dropped_rows\<close> holds exactly the rows that the cleaning removed;
  the cleaning removes the row with label 0, and \<open>dropped_rows\<close> holds the row with
  label 2, a complete ride that is also in \<open>df_rides\<close>. The numbers of rows add up as
  the claim says (\<open>dropped_rows_count\<close>).
\<close>

theorem dropped_rows_are_the_last_rows:
  "CitibikeDataset example_lib example_fs ''rides.csv'' = Inr example_dataset
   \<and> body (read_csv example_rides_csv) =
       [(0, example_ride_missing), (1, example_ride_complete), (2, example_ride_other)]
   \<and> lookup example_ride_missing ''end_station_id'' = NaN
   \<and> body (dropna (read_csv example_rides_csv)) =
       [(1, example_ride_complete), (2, example_ride_other)]
   \<and> body (dropped_rows example_dataset) = [(2, example_ride_other)]"
  by code_simp

section \<open>Validation of the constructor's input\<close>












end
